theory Spec2Isabelle
  imports Complex_Main "HOL-Library.Word"
begin

unbundle bit_operations_syntax

section \<open>Numeric model and SIMD wrappers\<close>

text \<open>
  The pair kernel of \<^verbatim>\<open>VectorizedCellProcessor.cpp\<close> is written against a small
  set of wrappers (\<^verbatim>\<open>vcp_simd_*\<close>) whose meaning depends on the build-time vector
  type.  This development embeds the scalar build (\<^verbatim>\<open>VCP_VEC_TYPE == VCP_NOVEC\<close>):
  a \<^verbatim>\<open>vcp_double_vec\<close> holds one lane, \<^verbatim>\<open>VCP_VEC_SIZE\<close> is one, and the
  floor/ceil-to-vector-size helpers are the identity.

  A \<^verbatim>\<open>double\<close> is modelled by a HOL \<open>real\<close>: arithmetic is exact, there is no
  rounding, NaN or infinity.  Division follows HOL (\<open>x / 0 = 0\<close>); statements that
  depend on a quotient carry the hypothesis that the divisor is not zero.

  The source keeps the three Cartesian components of every quantity in three
  parallel arrays (\<^verbatim>\<open>_ljc_f_x\<close>, \<^verbatim>\<open>_ljc_f_y\<close>, \<^verbatim>\<open>_ljc_f_z\<close>) and repeats each
  statement once per component.  Here the three arrays are one list of triples and
  the three statements one operation on a triple.
\<close>

type_synonym vec3 = "real \<times> real \<times> real"

type_synonym vcp_mask = "64 word"

abbreviation vx :: "vec3 \<Rightarrow> real" where "vx v \<equiv> fst v"
abbreviation vy :: "vec3 \<Rightarrow> real" where "vy v \<equiv> fst (snd v)"
abbreviation vz :: "vec3 \<Rightarrow> real" where "vz v \<equiv> snd (snd v)"

definition v3add :: "vec3 \<Rightarrow> vec3 \<Rightarrow> vec3" where
  "v3add a b = (vx a + vx b, vy a + vy b, vz a + vz b)"

definition v3sub :: "vec3 \<Rightarrow> vec3 \<Rightarrow> vec3" where
  "v3sub a b = (vx a - vx b, vy a - vy b, vz a - vz b)"


definition VCP_SIMD_ZEROV3 :: vec3 where
  "VCP_SIMD_ZEROV3 = (0, 0, 0)"

text \<open>
  Modelled from the spec: the wrappers \<^verbatim>\<open>vcp_simd_scalProd\<close>, \<^verbatim>\<open>vcp_simd_fma\<close>,
  \<^verbatim>\<open>vcp_simd_fms\<close>, \<^verbatim>\<open>vcp_simd_fnma\<close>, \<^verbatim>\<open>vcp_simd_applymask\<close> and
  \<^verbatim>\<open>vcp_simd_movemask\<close> are declared in a header that is not part of the sources at
  hand.  Their meaning is fixed by the way the kernel uses and comments them:
  \<^verbatim>\<open>fms(e_x, dy, e_y * dx)\<close> is stored in \<^verbatim>\<open>e_x_dy_minus_e_y_dx\<close>,
  \<^verbatim>\<open>fnma(five, re1re2perr2, e1e2)\<close> is commented \<^verbatim>\<open>-five*re1+e1e2\<close>, and a masked
  lane is one whose value is discarded (replaced by zero).
\<close>

definition vcp_simd_scalProd :: "real \<Rightarrow> real \<Rightarrow> real \<Rightarrow> real \<Rightarrow> real \<Rightarrow> real \<Rightarrow> real" where
  "vcp_simd_scalProd a1 a2 a3 b1 b2 b3 = a1 * b1 + a2 * b2 + a3 * b3"

definition vcp_simd_fma :: "real \<Rightarrow> real \<Rightarrow> real \<Rightarrow> real" where
  "vcp_simd_fma a b c = a * b + c"

definition vcp_simd_fms :: "real \<Rightarrow> real \<Rightarrow> real \<Rightarrow> real" where
  "vcp_simd_fms a b c = a * b - c"

definition vcp_simd_fnma :: "real \<Rightarrow> real \<Rightarrow> real \<Rightarrow> real" where
  "vcp_simd_fnma a b c = c - a * b"

definition vcp_simd_applymask :: "real \<Rightarrow> vcp_mask \<Rightarrow> real" where
  "vcp_simd_applymask a m = (if m = 0 then 0 else a)"

definition vcp_simd_movemask :: "vcp_mask \<Rightarrow> bool" where
  "vcp_simd_movemask m = (m \<noteq> 0)"

definition vcp_simd_load_add_store :: "nat \<Rightarrow> vec3 \<Rightarrow> vec3 list \<Rightarrow> vec3 list" where
  "vcp_simd_load_add_store j v a = a[j := v3add (a ! j) v]"

definition vcp_simd_load_sub_store :: "nat \<Rightarrow> vec3 \<Rightarrow> vec3 list \<Rightarrow> vec3 list" where
  "vcp_simd_load_sub_store j v a = a[j := v3sub (a ! j) v]"

definition hSum_Add_Store :: "nat \<Rightarrow> vec3 \<Rightarrow> vec3 list \<Rightarrow> vec3 list" where
  "hSum_Add_Store i v a = a[i := v3add (a ! i) v]"


section \<open>The pair routines\<close>

text \<open>
  Each \<^verbatim>\<open>_loopBody*\<close> routine is a function of its input vectors; the output
  references (\<^verbatim>\<open>f_x\<close>, \<^verbatim>\<open>M_x\<close>, the running sums) are returned.  The template
  argument \<^verbatim>\<open>calculateMacroscopic\<close> is the first argument.  Where the source assigns
  a local variable a second time (\<^verbatim>\<open>costj = costj * invdr\<close>, \<^verbatim>\<open>part1\<close>, \<^verbatim>\<open>eXrij_x\<close>)
  the second value gets a name of its own.  The argument \<^verbatim>\<open>switched\<close> is the vector
  \<^verbatim>\<open>ones\<close> or \<^verbatim>\<open>zero\<close>; no routine reads it.
\<close>

definition loopBodyLJ ::
  "bool \<Rightarrow> vec3 \<Rightarrow> vec3 \<Rightarrow> vec3 \<Rightarrow> vec3 \<Rightarrow> real \<Rightarrow> real \<Rightarrow> vcp_mask \<Rightarrow> real \<Rightarrow> real \<Rightarrow> real
     \<Rightarrow> vec3 \<times> real \<times> real" where
  "loopBodyLJ calculateMacroscopic m1_r r1 m2_r r2 sum_upot6lj sum_virial forceMask eps_24 sig2 shift6 =
    (let c_dx = vx r1 - vx r2;
         c_dy = vy r1 - vy r2;
         c_dz = vz r1 - vz r2;
         c_r2 = vcp_simd_scalProd c_dx c_dy c_dz c_dx c_dy c_dz;
         r2_inv_unmasked = 1 / c_r2;
         r2_inv = vcp_simd_applymask r2_inv_unmasked forceMask;
         lj2 = sig2 * r2_inv;
         lj4 = lj2 * lj2;
         lj6 = lj4 * lj2;
         lj12 = lj6 * lj6;
         lj12m6 = lj12 - lj6;
         eps24r2inv = eps_24 * r2_inv;
         lj12lj12m6 = lj12 + lj12m6;
         scale = eps24r2inv * lj12lj12m6;
         f_x = c_dx * scale;
         f_y = c_dy * scale;
         f_z = c_dz * scale;
         m_dx = vx m1_r - vx m2_r;
         m_dy = vy m1_r - vy m2_r;
         m_dz = vz m1_r - vz m2_r
     in if calculateMacroscopic then
          (let upot_sh = vcp_simd_fma eps_24 lj12m6 shift6;
               upot_masked = vcp_simd_applymask upot_sh forceMask;
               virial = vcp_simd_scalProd m_dx m_dy m_dz f_x f_y f_z
           in ((f_x, f_y, f_z), sum_upot6lj + upot_masked, sum_virial + virial))
        else ((f_x, f_y, f_z), sum_upot6lj, sum_virial))"

definition loopBodyCharge ::
  "bool \<Rightarrow> vec3 \<Rightarrow> vec3 \<Rightarrow> real \<Rightarrow> vec3 \<Rightarrow> vec3 \<Rightarrow> real \<Rightarrow> real \<Rightarrow> real \<Rightarrow> vcp_mask
     \<Rightarrow> vec3 \<times> real \<times> real" where
  "loopBodyCharge calculateMacroscopic m1_r r1 qii m2_r r2 qjj sum_upotXpoles sum_virial forceMask =
    (let c_dx = vx r1 - vx r2;
         c_dy = vy r1 - vy r2;
         c_dz = vz r1 - vz r2;
         c_dr2 = vcp_simd_scalProd c_dx c_dy c_dz c_dx c_dy c_dz;
         c_dr2_inv_unmasked = 1 / c_dr2;
         c_dr2_inv = vcp_simd_applymask c_dr2_inv_unmasked forceMask;
         c_dr_inv = sqrt c_dr2_inv;
         q1q2per4pie0 = qii * qjj;
         upot = q1q2per4pie0 * c_dr_inv;
         fac = upot * c_dr2_inv;
         f_x = c_dx * fac;
         f_y = c_dy * fac;
         f_z = c_dz * fac;
         m_dx = vx m1_r - vx m2_r;
         m_dy = vy m1_r - vy m2_r;
         m_dz = vz m1_r - vz m2_r
     in if calculateMacroscopic then
          (let virial = vcp_simd_scalProd m_dx m_dy m_dz f_x f_y f_z
           in ((f_x, f_y, f_z), sum_upotXpoles + upot, sum_virial + virial))
        else ((f_x, f_y, f_z), sum_upotXpoles, sum_virial))"

definition loopBodyChargeDipole ::
  "bool \<Rightarrow> vec3 \<Rightarrow> vec3 \<Rightarrow> real \<Rightarrow> vec3 \<Rightarrow> vec3 \<Rightarrow> vec3 \<Rightarrow> real \<Rightarrow> real \<Rightarrow> real \<Rightarrow> vcp_mask \<Rightarrow> vcp_mask
     \<Rightarrow> vec3 \<times> vec3 \<times> real \<times> real" where
  "loopBodyChargeDipole calculateMacroscopic m1_r r1 q m2_r r2 e p sum_upotXpoles sum_virial forceMask switched =
    (let dx = vx r1 - vx r2;
         dy = vy r1 - vy r2;
         dz = vz r1 - vz r2;
         dr2 = vcp_simd_scalProd dx dy dz dx dy dz;
         dr2_inv_unmasked = 1 / dr2;
         dr2_inv = vcp_simd_applymask dr2_inv_unmasked forceMask;
         dr_inv = sqrt dr2_inv;
         dr3_inv = dr2_inv * dr_inv;
         re = vcp_simd_scalProd dx dy dz (vx e) (vy e) (vz e);
         qpper4pie0 = q * p;
         qpper4pie0dr3 = qpper4pie0 * dr3_inv;
         fac = dr2_inv * 3 * re;
         f_x = qpper4pie0dr3 * vcp_simd_fnma dx fac (vx e);
         f_y = qpper4pie0dr3 * vcp_simd_fnma dy fac (vy e);
         f_z = qpper4pie0dr3 * vcp_simd_fnma dz fac (vz e);
         m_dx = vx m1_r - vx m2_r;
         m_dy = vy m1_r - vy m2_r;
         m_dz = vz m1_r - vz m2_r;
         e_x_dy_minus_e_y_dx = vcp_simd_fms (vx e) dy (vy e * dx);
         e_y_dz_minus_e_z_dy = vcp_simd_fms (vy e) dz (vz e * dy);
         e_z_dx_minus_e_x_dz = vcp_simd_fms (vz e) dx (vx e * dz);
         M_x = qpper4pie0dr3 * e_y_dz_minus_e_z_dy;
         M_y = qpper4pie0dr3 * e_z_dx_minus_e_x_dz;
         M_z = qpper4pie0dr3 * e_x_dy_minus_e_y_dx
     in if calculateMacroscopic then
          (let minusUpot = qpper4pie0dr3 * re;
               virial = vcp_simd_scalProd m_dx m_dy m_dz f_x f_y f_z
           in ((f_x, f_y, f_z), (M_x, M_y, M_z), sum_upotXpoles - minusUpot, sum_virial + virial))
        else ((f_x, f_y, f_z), (M_x, M_y, M_z), sum_upotXpoles, sum_virial))"

definition loopBodyDipole ::
  "bool \<Rightarrow> vec3 \<Rightarrow> vec3 \<Rightarrow> vec3 \<Rightarrow> real \<Rightarrow> vec3 \<Rightarrow> vec3 \<Rightarrow> vec3 \<Rightarrow> real
     \<Rightarrow> real \<Rightarrow> real \<Rightarrow> real \<Rightarrow> vcp_mask \<Rightarrow> real
     \<Rightarrow> vec3 \<times> vec3 \<times> vec3 \<times> real \<times> real \<times> real" where
  "loopBodyDipole calculateMacroscopic m1_r r1 eii pii m2_r r2 ejj pjj
       sum_upotXpoles sum_virial sum_myRF forceMask epsRFInvrc3 =
    (let dx = vx r1 - vx r2;
         dy = vy r1 - vy r2;
         dz = vz r1 - vz r2;
         dr2 = vcp_simd_scalProd dx dy dz dx dy dz;
         dr2_inv_unmasked = 1 / dr2;
         dr2_inv = vcp_simd_applymask dr2_inv_unmasked forceMask;
         dr_inv = sqrt dr2_inv;
         dr2three_inv = 3 * dr2_inv;
         p1p2 = vcp_simd_applymask (pii * pjj) forceMask;
         p1p2per4pie0 = p1p2;
         rffac = p1p2 * epsRFInvrc3;
         p1p2per4pie0r3 = p1p2per4pie0 * dr_inv * dr2_inv;
         p1p2threeper4pie0r5 = p1p2per4pie0r3 * dr2three_inv;
         e1e2 = vcp_simd_scalProd (vx eii) (vy eii) (vz eii) (vx ejj) (vy ejj) (vz ejj);
         re1 = vcp_simd_scalProd dx dy dz (vx eii) (vy eii) (vz eii);
         re2 = vcp_simd_scalProd dx dy dz (vx ejj) (vy ejj) (vz ejj);
         re1threeperr2 = re1 * dr2three_inv;
         re2threeperr2 = re2 * dr2three_inv;
         re1re2perr2 = dr2_inv * re1 * re2;
         e1e2minus5re1re2perr2 = vcp_simd_fnma 5 re1re2perr2 e1e2;
         f_x = p1p2threeper4pie0r5 * vcp_simd_scalProd dx (vx eii) (vx ejj) e1e2minus5re1re2perr2 re2 re1;
         f_y = p1p2threeper4pie0r5 * vcp_simd_scalProd dy (vy eii) (vy ejj) e1e2minus5re1re2perr2 re2 re1;
         f_z = p1p2threeper4pie0r5 * vcp_simd_scalProd dz (vz eii) (vz ejj) e1e2minus5re1re2perr2 re2 re1;
         m_dx = vx m1_r - vx m2_r;
         m_dy = vy m1_r - vy m2_r;
         m_dz = vz m1_r - vz m2_r;
         e1_x_e2_y_minus_e1_y_e2_x = vcp_simd_fms (vx eii) (vy ejj) (vy eii * vx ejj);
         e1_y_e2_z_minus_e1_z_e2_y = vcp_simd_fms (vy eii) (vz ejj) (vz eii * vy ejj);
         e1_z_e2_x_minus_e1_x_e2_z = vcp_simd_fms (vz eii) (vx ejj) (vx eii * vz ejj);
         M1_x = vcp_simd_fma p1p2per4pie0r3
                  (vcp_simd_fms re2threeperr2 (vcp_simd_fms (vy eii) dz (vz eii * dy)) e1_y_e2_z_minus_e1_z_e2_y)
                  (rffac * e1_y_e2_z_minus_e1_z_e2_y);
         M1_y = vcp_simd_fma p1p2per4pie0r3
                  (vcp_simd_fms re2threeperr2 (vcp_simd_fms (vz eii) dx (vx eii * dz)) e1_z_e2_x_minus_e1_x_e2_z)
                  (rffac * e1_z_e2_x_minus_e1_x_e2_z);
         M1_z = vcp_simd_fma p1p2per4pie0r3
                  (vcp_simd_fms re2threeperr2 (vcp_simd_fms (vx eii) dy (vy eii * dx)) e1_x_e2_y_minus_e1_y_e2_x)
                  (rffac * e1_x_e2_y_minus_e1_y_e2_x);
         M2_x = vcp_simd_fms p1p2per4pie0r3
                  (vcp_simd_fma re1threeperr2 (vcp_simd_fms (vy ejj) dz (vz ejj * dy)) e1_y_e2_z_minus_e1_z_e2_y)
                  (rffac * e1_y_e2_z_minus_e1_z_e2_y);
         M2_y = vcp_simd_fms p1p2per4pie0r3
                  (vcp_simd_fma re1threeperr2 (vcp_simd_fms (vz ejj) dx (vx ejj * dz)) e1_z_e2_x_minus_e1_x_e2_z)
                  (rffac * e1_z_e2_x_minus_e1_x_e2_z);
         M2_z = vcp_simd_fms p1p2per4pie0r3
                  (vcp_simd_fma re1threeperr2 (vcp_simd_fms (vx ejj) dy (vy ejj * dx)) e1_x_e2_y_minus_e1_y_e2_x)
                  (rffac * e1_x_e2_y_minus_e1_y_e2_x)
     in if calculateMacroscopic then
          (let upot = p1p2per4pie0r3 * vcp_simd_fnma 3 re1re2perr2 e1e2;
               virial = vcp_simd_scalProd m_dx m_dy m_dz f_x f_y f_z
           in ((f_x, f_y, f_z), (M1_x, M1_y, M1_z), (M2_x, M2_y, M2_z),
               sum_upotXpoles + upot, sum_virial + virial, vcp_simd_fma rffac e1e2 sum_myRF))
        else ((f_x, f_y, f_z), (M1_x, M1_y, M1_z), (M2_x, M2_y, M2_z),
              sum_upotXpoles, sum_virial, sum_myRF))"

definition loopBodyChargeQuadrupole ::
  "bool \<Rightarrow> vec3 \<Rightarrow> vec3 \<Rightarrow> real \<Rightarrow> vec3 \<Rightarrow> vec3 \<Rightarrow> vec3 \<Rightarrow> real \<Rightarrow> real \<Rightarrow> real \<Rightarrow> vcp_mask \<Rightarrow> vcp_mask
     \<Rightarrow> vec3 \<times> vec3 \<times> real \<times> real" where
  "loopBodyChargeQuadrupole calculateMacroscopic m1_r r1 q m2_r r2 ejj m sum_upotXpoles sum_virial forceMask switched =
    (let c_dx = vx r1 - vx r2;
         c_dy = vy r1 - vy r2;
         c_dz = vz r1 - vz r2;
         c_dr2 = vcp_simd_scalProd c_dx c_dy c_dz c_dx c_dy c_dz;
         invdr2_unmasked = 1 / c_dr2;
         invdr2 = vcp_simd_applymask invdr2_unmasked forceMask;
         invdr = sqrt invdr2;
         qQ05per4pie0 = 0.5 * q * m;
         costj0 = vcp_simd_scalProd (vx ejj) (vy ejj) (vz ejj) c_dx c_dy c_dz;
         costj = costj0 * invdr;
         qQinv4dr3 = qQ05per4pie0 * invdr * invdr2;
         part1 = 3 * costj * costj;
         upot = qQinv4dr3 * (part1 - 1);
         minus_partialRijInvdr = 3 * upot * invdr2;
         partialTjInvdr = 6 * costj * qQinv4dr3 * invdr;
         fac = vcp_simd_fma (costj * partialTjInvdr) invdr minus_partialRijInvdr;
         f_x = vcp_simd_fms fac c_dx (partialTjInvdr * vx ejj);
         f_y = vcp_simd_fms fac c_dy (partialTjInvdr * vy ejj);
         f_z = vcp_simd_fms fac c_dz (partialTjInvdr * vz ejj);
         m_dx = vx m1_r - vx m2_r;
         m_dy = vy m1_r - vy m2_r;
         m_dz = vz m1_r - vz m2_r;
         minuseXrij_x = vcp_simd_fms (vz ejj) c_dy (vy ejj * c_dz);
         minuseXrij_y = vcp_simd_fms (vx ejj) c_dz (vz ejj * c_dx);
         minuseXrij_z = vcp_simd_fms (vy ejj) c_dx (vx ejj * c_dy);
         M_x = partialTjInvdr * minuseXrij_x;
         M_y = partialTjInvdr * minuseXrij_y;
         M_z = partialTjInvdr * minuseXrij_z
     in if calculateMacroscopic then
          (let virial = vcp_simd_scalProd m_dx m_dy m_dz f_x f_y f_z
           in ((f_x, f_y, f_z), (M_x, M_y, M_z), sum_upotXpoles + upot, sum_virial + virial))
        else ((f_x, f_y, f_z), (M_x, M_y, M_z), sum_upotXpoles, sum_virial))"

definition loopBodyDipoleQuadrupole ::
  "bool \<Rightarrow> vec3 \<Rightarrow> vec3 \<Rightarrow> vec3 \<Rightarrow> real \<Rightarrow> vec3 \<Rightarrow> vec3 \<Rightarrow> vec3 \<Rightarrow> real
     \<Rightarrow> real \<Rightarrow> real \<Rightarrow> vcp_mask \<Rightarrow> vcp_mask
     \<Rightarrow> vec3 \<times> vec3 \<times> vec3 \<times> real \<times> real" where
  "loopBodyDipoleQuadrupole calculateMacroscopic m1_r r1 eii p m2_r r2 ejj m
       sum_upotXpoles sum_virial forceMask switched =
    (let c_dx = vx r1 - vx r2;
         c_dy = vy r1 - vy r2;
         c_dz = vz r1 - vz r2;
         c_dr2 = vcp_simd_scalProd c_dx c_dy c_dz c_dx c_dy c_dz;
         invdr2_unmasked = 1 / c_dr2;
         invdr2 = vcp_simd_applymask invdr2_unmasked forceMask;
         invdr = sqrt invdr2;
         myqfac = 1.5 * p * m * invdr2 * invdr2;
         costi0 = vcp_simd_scalProd (vx eii) (vy eii) (vz eii) c_dx c_dy c_dz;
         costi = costi0 * invdr;
         costj0 = vcp_simd_scalProd (vx ejj) (vy ejj) (vz ejj) c_dx c_dy c_dz;
         costj = costj0 * invdr;
         cos2tj = costj * costj;
         cosgij = vcp_simd_scalProd (vx eii) (vy eii) (vz eii) (vx ejj) (vy ejj) (vz ejj);
         five_cos2tjminus1 = vcp_simd_fms 5 cos2tj 1;
         two_costj = 2 * costj;
         part1 = costi * five_cos2tjminus1;
         part2 = two_costj * cosgij;
         upot = myqfac * (part2 - part1);
         myqfacXinvdr = myqfac * invdr;
         minus_partialRijInvdr = 4 * upot * invdr2;
         minus_partialTiInvdr = myqfacXinvdr * five_cos2tjminus1;
         part1b = vcp_simd_fms 5 (costi * costj) cosgij;
         minus_partialTjInvdr = myqfacXinvdr * 2 * part1b;
         partialGij = myqfac * two_costj;
         part3 = vcp_simd_fma costi minus_partialTiInvdr (costj * minus_partialTjInvdr);
         fac = vcp_simd_fnma part3 invdr minus_partialRijInvdr;
         f_x = vcp_simd_scalProd fac minus_partialTiInvdr minus_partialTjInvdr c_dx (vx eii) (vx ejj);
         f_y = vcp_simd_scalProd fac minus_partialTiInvdr minus_partialTjInvdr c_dy (vy eii) (vy ejj);
         f_z = vcp_simd_scalProd fac minus_partialTiInvdr minus_partialTjInvdr c_dz (vz eii) (vz ejj);
         m_dx = vx m1_r - vx m2_r;
         m_dy = vy m1_r - vy m2_r;
         m_dz = vz m1_r - vz m2_r;
         eii_x_ejj_y_minus_eii_y_ejj_x = vcp_simd_fms (vx eii) (vy ejj) (vy eii * vx ejj);
         eii_y_ejj_z_minus_eii_z_ejj_y = vcp_simd_fms (vy eii) (vz ejj) (vz eii * vy ejj);
         eii_z_ejj_x_minus_eii_x_ejj_z = vcp_simd_fms (vz eii) (vx ejj) (vx eii * vz ejj);
         partialGij_eiXej_x = partialGij * eii_y_ejj_z_minus_eii_z_ejj_y;
         partialGij_eiXej_y = partialGij * eii_z_ejj_x_minus_eii_x_ejj_z;
         partialGij_eiXej_z = partialGij * eii_x_ejj_y_minus_eii_y_ejj_x;
         eXrij_x = vcp_simd_fms (vy eii) c_dz (vz eii * c_dy);
         eXrij_y = vcp_simd_fms (vz eii) c_dx (vx eii * c_dz);
         eXrij_z = vcp_simd_fms (vx eii) c_dy (vy eii * c_dx);
         M1_x = vcp_simd_fms minus_partialTiInvdr eXrij_x partialGij_eiXej_x;
         M1_y = vcp_simd_fms minus_partialTiInvdr eXrij_y partialGij_eiXej_y;
         M1_z = vcp_simd_fms minus_partialTiInvdr eXrij_z partialGij_eiXej_z;
         eXrij_xb = vcp_simd_fms (vy ejj) c_dz (vz ejj * c_dy);
         eXrij_yb = vcp_simd_fms (vz ejj) c_dx (vx ejj * c_dz);
         eXrij_zb = vcp_simd_fms (vx ejj) c_dy (vy ejj * c_dx);
         M2_x = vcp_simd_fma minus_partialTjInvdr eXrij_xb partialGij_eiXej_x;
         M2_y = vcp_simd_fma minus_partialTjInvdr eXrij_yb partialGij_eiXej_y;
         M2_z = vcp_simd_fma minus_partialTjInvdr eXrij_zb partialGij_eiXej_z
     in if calculateMacroscopic then
          (let virial = vcp_simd_scalProd m_dx m_dy m_dz f_x f_y f_z
           in ((f_x, f_y, f_z), (M1_x, M1_y, M1_z), (M2_x, M2_y, M2_z),
               sum_upotXpoles + upot, sum_virial + virial))
        else ((f_x, f_y, f_z), (M1_x, M1_y, M1_z), (M2_x, M2_y, M2_z), sum_upotXpoles, sum_virial))"

definition loopBodyQuadrupole ::
  "bool \<Rightarrow> vec3 \<Rightarrow> vec3 \<Rightarrow> vec3 \<Rightarrow> real \<Rightarrow> vec3 \<Rightarrow> vec3 \<Rightarrow> vec3 \<Rightarrow> real
     \<Rightarrow> real \<Rightarrow> real \<Rightarrow> vcp_mask
     \<Rightarrow> vec3 \<times> vec3 \<times> vec3 \<times> real \<times> real" where
  "loopBodyQuadrupole calculateMacroscopic m1_r r1 eii mii m2_r r2 ejj mjj
       sum_upotXpoles sum_virial forceMask =
    (let c_dx = vx r1 - vx r2;
         c_dy = vy r1 - vy r2;
         c_dz = vz r1 - vz r2;
         c_dr2 = vcp_simd_scalProd c_dx c_dy c_dz c_dx c_dy c_dz;
         invdr2_unmasked = 1 / c_dr2;
         invdr2 = vcp_simd_applymask invdr2_unmasked forceMask;
         invdr = sqrt invdr2;
         qfac0 = 0.75 * invdr;
         qfac1 = qfac0 * (mii * mjj);
         qfac = qfac1 * (invdr2 * invdr2);
         costi0 = vcp_simd_scalProd (vx eii) (vy eii) (vz eii) c_dx c_dy c_dz;
         costi = costi0 * invdr;
         costj0 = vcp_simd_scalProd (vx ejj) (vy ejj) (vz ejj) c_dx c_dy c_dz;
         costj = costj0 * invdr;
         cos2ti = costi * costi;
         cos2tj = costj * costj;
         cosgij = vcp_simd_scalProd (vx eii) (vy eii) (vz eii) (vx ejj) (vy ejj) (vz ejj);
         term0 = 5 * (costi * costj);
         term = cosgij - term0;
         part2 = 15 * cos2ti * cos2tj;
         part3 = 2 * term * term;
         upot0 = vcp_simd_fma 5 (cos2ti + cos2tj) part2;
         upot1 = (1 + part3) - upot0;
         upot = qfac * upot1;
         minus_partialRijInvdr = 5 * upot * invdr2;
         part1 = qfac * 10 * invdr;
         part2b = 2 * term;
         part3b = 3 * costi * cos2tj;
         part4 = costi + vcp_simd_fma part2b costj part3b;
         minus_partialTiInvdr = part1 * part4;
         part3c = 3 * costj * cos2ti;
         part4b = costj + vcp_simd_fma part2b costi part3c;
         minus_partialTjInvdr = part1 * part4b;
         partialGij = qfac * 4 * term;
         part1b = minus_partialTiInvdr * costi;
         part2c = minus_partialTjInvdr * costj;
         fac = vcp_simd_fnma (part1b + part2c) invdr minus_partialRijInvdr;
         f_x = vcp_simd_scalProd fac minus_partialTiInvdr minus_partialTjInvdr c_dx (vx eii) (vx ejj);
         f_y = vcp_simd_scalProd fac minus_partialTiInvdr minus_partialTjInvdr c_dy (vy eii) (vy ejj);
         f_z = vcp_simd_scalProd fac minus_partialTiInvdr minus_partialTjInvdr c_dz (vz eii) (vz ejj);
         m_dx = vx m1_r - vx m2_r;
         m_dy = vy m1_r - vy m2_r;
         m_dz = vz m1_r - vz m2_r;
         eii_x_ejj_y_minus_eii_y_ejj_x = vcp_simd_fms (vx eii) (vy ejj) (vy eii * vx ejj);
         eii_y_ejj_z_minus_eii_z_ejj_y = vcp_simd_fms (vy eii) (vz ejj) (vz eii * vy ejj);
         eii_z_ejj_x_minus_eii_x_ejj_z = vcp_simd_fms (vz eii) (vx ejj) (vx eii * vz ejj);
         partialGij_eiXej_x = partialGij * eii_y_ejj_z_minus_eii_z_ejj_y;
         partialGij_eiXej_y = partialGij * eii_z_ejj_x_minus_eii_x_ejj_z;
         partialGij_eiXej_z = partialGij * eii_x_ejj_y_minus_eii_y_ejj_x;
         eXrij_x = vcp_simd_fms (vy eii) c_dz (vz eii * c_dy);
         eXrij_y = vcp_simd_fms (vz eii) c_dx (vx eii * c_dz);
         eXrij_z = vcp_simd_fms (vx eii) c_dy (vy eii * c_dx);
         Mii_x = vcp_simd_fms minus_partialTiInvdr eXrij_x partialGij_eiXej_x;
         Mii_y = vcp_simd_fms minus_partialTiInvdr eXrij_y partialGij_eiXej_y;
         Mii_z = vcp_simd_fms minus_partialTiInvdr eXrij_z partialGij_eiXej_z;
         eXrij_xb = vcp_simd_fms (vy ejj) c_dz (vz ejj * c_dy);
         eXrij_yb = vcp_simd_fms (vz ejj) c_dx (vx ejj * c_dz);
         eXrij_zb = vcp_simd_fms (vx ejj) c_dy (vy ejj * c_dx);
         Mjj_x = vcp_simd_fma minus_partialTjInvdr eXrij_xb partialGij_eiXej_x;
         Mjj_y = vcp_simd_fma minus_partialTjInvdr eXrij_yb partialGij_eiXej_y;
         Mjj_z = vcp_simd_fma minus_partialTjInvdr eXrij_zb partialGij_eiXej_z
     in if calculateMacroscopic then
          (let virial = vcp_simd_scalProd m_dx m_dy m_dz f_x f_y f_z
           in ((f_x, f_y, f_z), (Mii_x, Mii_y, Mii_z), (Mjj_x, Mjj_y, Mjj_z),
               sum_upotXpoles + upot, sum_virial + virial))
        else ((f_x, f_y, f_z), (Mii_x, Mii_y, Mii_z), (Mjj_x, Mjj_y, Mjj_z), sum_upotXpoles, sum_virial))"


section \<open>Cell data and the distance lookup\<close>

text \<open>
  \<^verbatim>\<open>CellDataSoA\<close> holds, per cell, the molecule arrays and one group of arrays per
  site kind.  The counters \<^verbatim>\<open>_mol_ljc_num\<close> etc. are \<^verbatim>\<open>int\<close> arrays in the source and
  only ever hold site counts; they are naturals here.  An entry of a
  \<^verbatim>\<open>dist_lookup\<close> array is a 64-bit pattern, all ones or zero.
\<close>

record CellDataSoA =
  mol_num :: nat
  ljc_num :: nat
  charges_num :: nat
  dipoles_num :: nat
  quadrupoles_num :: nat
  mol_pos :: "vec3 list"
  mol_ljc_num :: "nat list"
  mol_charges_num :: "nat list"
  mol_dipoles_num :: "nat list"
  mol_quadrupoles_num :: "nat list"
  ljc_m_r :: "vec3 list"
  ljc_r :: "vec3 list"
  ljc_f :: "vec3 list"
  ljc_id :: "nat list"
  ljc_dist_lookup :: "vcp_mask list"
  charges_m_r :: "vec3 list"
  charges_r :: "vec3 list"
  charges_f :: "vec3 list"
  charges_q :: "real list"
  charges_dist_lookup :: "vcp_mask list"
  dipoles_m_r :: "vec3 list"
  dipoles_r :: "vec3 list"
  dipoles_f :: "vec3 list"
  dipoles_p :: "real list"
  dipoles_e :: "vec3 list"
  dipoles_M :: "vec3 list"
  dipoles_dist_lookup :: "vcp_mask list"
  quadrupoles_m_r :: "vec3 list"
  quadrupoles_r :: "vec3 list"
  quadrupoles_f :: "vec3 list"
  quadrupoles_m :: "real list"
  quadrupoles_e :: "vec3 list"
  quadrupoles_M :: "vec3 list"
  quadrupoles_dist_lookup :: "vcp_mask list"

datatype ForcePolicy = SingleCellPolicy | CellPairPolicy

text \<open>
  Modelled from the spec: the policy classes \<^verbatim>\<open>SingleCellPolicy_\<close> and
  \<^verbatim>\<open>CellPairPolicy_\<close> (their members \<^verbatim>\<open>InitJ\<close> and \<^verbatim>\<open>Condition\<close>) are declared in
  the header of the cell processor, which is not part of the sources at hand.  The
  specification gives the lower bound for \<open>j\<close> as \<open>source_site_index + 1\<close> in the
  same cell and \<open>0\<close> for distinct cells, and the mask condition as "squared
  centre-of-mass separation below the cutoff squared".
\<close>

fun InitJ :: "ForcePolicy \<Rightarrow> nat \<Rightarrow> nat" where
  "InitJ SingleCellPolicy i = i + 1"
| "InitJ CellPairPolicy i = 0"

definition Condition :: "ForcePolicy \<Rightarrow> real \<Rightarrow> real \<Rightarrow> bool" where
  "Condition policy m_r2 rc2 = (m_r2 < rc2)"

text \<open>
  \<^verbatim>\<open>calcDistLookup\<close>, scalar branch.  The loop runs \<open>j\<close> from \<^verbatim>\<open>InitJ(i_center_idx)\<close>
  to \<^verbatim>\<open>soa2_num_centers\<close>; it stores the mask of entry \<open>j\<close> and ors it into
  \<^verbatim>\<open>compute_molecule\<close>, which is returned together with the array written.
\<close>

definition calcDistLookup_body ::
  "ForcePolicy \<Rightarrow> CellDataSoA \<Rightarrow> nat \<Rightarrow> real \<Rightarrow> vec3 list \<Rightarrow> nat
     \<Rightarrow> vcp_mask \<times> vcp_mask list \<Rightarrow> vcp_mask \<times> vcp_mask list" where
  "calcDistLookup_body policy soa1 i cutoffRadiusSquare soa2_m_r j s =
    (let compute_molecule = fst s;
         soa2_center_dist_lookup = snd s;
         m_dx = vx (mol_pos soa1 ! i) - vx (soa2_m_r ! j);
         m_dy = vy (mol_pos soa1 ! i) - vy (soa2_m_r ! j);
         m_dz = vz (mol_pos soa1 ! i) - vz (soa2_m_r ! j);
         m_r2 = m_dx * m_dx + m_dy * m_dy + m_dz * m_dz;
         forceMask = (if Condition policy m_r2 cutoffRadiusSquare then NOT 0 else 0)
     in (compute_molecule OR forceMask, soa2_center_dist_lookup[j := forceMask]))"

definition calcDistLookup ::
  "ForcePolicy \<Rightarrow> CellDataSoA \<Rightarrow> nat \<Rightarrow> nat \<Rightarrow> nat \<Rightarrow> real \<Rightarrow> vcp_mask list \<Rightarrow> vec3 list
     \<Rightarrow> vcp_mask \<times> vcp_mask list" where
  "calcDistLookup policy soa1 i i_center_idx soa2_num_centers cutoffRadiusSquare
       soa2_center_dist_lookup soa2_m_r =
     fold (calcDistLookup_body policy soa1 i cutoffRadiusSquare soa2_m_r)
          [InitJ policy i_center_idx ..< soa2_num_centers] (0, soa2_center_dist_lookup)"


section \<open>The cell processor\<close>

text \<open>
  The members of \<^verbatim>\<open>VectorizedCellProcessor\<close> read or written by the traversal: the
  squared cutoffs of the base class, the reaction-field prefactor, the two
  parameter tables and the four macroscopic accumulators.
\<close>

record VectorizedCellProcessor =
  cutoffRadiusSquare :: real
  LJCutoffRadiusSquare :: real
  epsRFInvrc3 :: real
  eps_sig :: "real list list"
  shift6 :: "real list list"
  upot6lj :: real
  upotXpoles :: real
  virial :: real
  myRF :: real

text \<open>
  The member initialiser of the constructor for \<^verbatim>\<open>_epsRFInvrc3\<close>, as a function of
  \<^verbatim>\<open>domain.getepsilonRF()\<close> and \<^verbatim>\<open>cutoffRadius\<close>.
\<close>

definition epsRFInvrc3_init :: "real \<Rightarrow> real \<Rightarrow> real" where
  "epsRFInvrc3_init epsilonRF cutoffRadius =
     2 * (epsilonRF - 1) / ((cutoffRadius * cutoffRadius * cutoffRadius) * (2 * epsilonRF + 1))"

text \<open>
  The constructor's initialiser list.  The base class \<^verbatim>\<open>CellProcessor\<close> stores the
  squares of the two radii; the parameter tables, which the constructor body fills
  from the domain's parameter streams, are passed in.
\<close>

definition VectorizedCellProcessor_init ::
  "real \<Rightarrow> real \<Rightarrow> real \<Rightarrow> real list list \<Rightarrow> real list list \<Rightarrow> VectorizedCellProcessor" where
  "VectorizedCellProcessor_init epsilonRF cutoffRadius LJcutoffRadius eps_sig_table shift6_table =
     \<lparr> cutoffRadiusSquare = cutoffRadius * cutoffRadius,
       LJCutoffRadiusSquare = LJcutoffRadius * LJcutoffRadius,
       epsRFInvrc3 = epsRFInvrc3_init epsilonRF cutoffRadius,
       eps_sig = eps_sig_table,
       shift6 = shift6_table,
       upot6lj = 0, upotXpoles = 0, virial = 0, myRF = 0 \<rparr>"

text \<open>
  Modelled from the spec: \<^verbatim>\<open>unpackEps24Sig2\<close> and \<^verbatim>\<open>unpackShift6\<close> are declared in the
  missing header.  The constructor lays a row of \<^verbatim>\<open>_eps_sig\<close> out as pairs
  (\<open>\<epsilon>\<cdot>24\<close> at \<open>2\<cdot>id\<close>, \<open>\<sigma>\<^sup>2\<close> at \<open>2\<cdot>id + 1\<close>) and a row of \<^verbatim>\<open>_shift6\<close> as one
  entry per centre; the unpack helpers read the entries of the target centre.
\<close>

definition unpackEps24Sig2 :: "real list \<Rightarrow> nat \<Rightarrow> real \<times> real" where
  "unpackEps24Sig2 eps_sigI id_j = (eps_sigI ! (2 * id_j), eps_sigI ! (2 * id_j + 1))"

definition unpackShift6 :: "real list \<Rightarrow> nat \<Rightarrow> real" where
  "unpackShift6 shift6I id_j = shift6I ! id_j"

text \<open>
  The local variables of \<^verbatim>\<open>_calculatePairs\<close> that live across loop iterations (the
  four running sums and the ten site cursors), together with the heap of
  \<^verbatim>\<open>CellDataSoA\<close> objects.  Both arguments of \<^verbatim>\<open>_calculatePairs\<close> are references;
  \<^verbatim>\<open>processCell\<close> passes the same object twice, so the model addresses the
  objects through the heap and reads every array at the moment the source does.
\<close>

record calc_state =
  sum_upot6lj :: real
  sum_upotXpoles :: real
  sum_virial :: real
  sum_myRF :: real
  i_ljc_idx :: nat
  i_charge_idx :: nat
  i_charge_dipole_idx :: nat
  i_charge_quadrupole_idx :: nat
  i_dipole_charge_idx :: nat
  i_dipole_idx :: nat
  i_dipole_quadrupole_idx :: nat
  i_quadrupole_charge_idx :: nat
  i_quadrupole_dipole_idx :: nat
  i_quadrupole_idx :: nat
  soas :: "nat \<Rightarrow> CellDataSoA"

definition upd_soa :: "nat \<Rightarrow> (CellDataSoA \<Rightarrow> CellDataSoA) \<Rightarrow> calc_state \<Rightarrow> calc_state" where
  "upd_soa p g cs = cs\<lparr>soas := (soas cs)(p := g (soas cs p))\<rparr>"


subsection \<open>Lennard-Jones centres\<close>

text \<open>
  Each interaction loop of \<^verbatim>\<open>_calculatePairs\<close> comes as two definitions: the body
  of the loop over \<open>j\<close> (\<open>\<dots>_pair\<close>: one target entry) and the body of the loop
  over \<^verbatim>\<open>local_i\<close> (\<open>\<dots>_site\<close>: one source site, with the loop over \<open>j\<close> as a
  \<open>fold\<close> and the final \<^verbatim>\<open>hSum_Add_Store\<close> into the source site).
\<close>

definition ljc_pair ::
  "bool \<Rightarrow> VectorizedCellProcessor \<Rightarrow> nat \<Rightarrow> nat \<Rightarrow> vec3 \<Rightarrow> vec3 \<Rightarrow> nat \<Rightarrow> nat
     \<Rightarrow> vec3 \<times> calc_state \<Rightarrow> vec3 \<times> calc_state" where
  "ljc_pair macro proc p1 p2 m1_r c_r1 idx j s =
    (let sum_f1 = fst s;
         cs = snd s;
         forceMask = ljc_dist_lookup (soas cs p2) ! j
     in if vcp_simd_movemask forceMask then
          (let c_r2 = ljc_r (soas cs p2) ! j;
               m_r2 = ljc_m_r (soas cs p2) ! j;
               id_i = ljc_id (soas cs p1) ! idx;
               es = unpackEps24Sig2 (eps_sig proc ! id_i) (ljc_id (soas cs p2) ! j);
               sh = unpackShift6 (shift6 proc ! id_i) (ljc_id (soas cs p2) ! j);
               r = loopBodyLJ macro m1_r c_r1 m_r2 c_r2 (sum_upot6lj cs) (sum_virial cs)
                     forceMask (fst es) (snd es) sh;
               f = fst r;
               cs1 = cs\<lparr>sum_upot6lj := fst (snd r), sum_virial := snd (snd r)\<rparr>;
               cs2 = upd_soa p2 (ljc_f_update (vcp_simd_load_sub_store j f)) cs1
           in (v3add sum_f1 f, cs2))
        else (sum_f1, cs))"

definition ljc_site ::
  "ForcePolicy \<Rightarrow> bool \<Rightarrow> VectorizedCellProcessor \<Rightarrow> nat \<Rightarrow> nat \<Rightarrow> vec3 \<Rightarrow> nat
     \<Rightarrow> calc_state \<Rightarrow> calc_state" where
  "ljc_site policy macro proc p1 p2 m1_r local_i cs =
    (let idx = i_ljc_idx cs;
         c_r1 = ljc_r (soas cs p1) ! idx;
         end_ljc_j_longloop = ljc_num (soas cs p2);
         s = fold (ljc_pair macro proc p1 p2 m1_r c_r1 idx)
               [InitJ policy idx ..< end_ljc_j_longloop] (VCP_SIMD_ZEROV3, cs);
         cs1 = upd_soa p1 (ljc_f_update (hSum_Add_Store idx (fst s))) (snd s)
     in cs1\<lparr>i_ljc_idx := idx + 1\<rparr>)"

subsection \<open>Interactions with the charges of the second cell\<close>

definition charge_charge_pair ::
  "bool \<Rightarrow> nat \<Rightarrow> vec3 \<Rightarrow> vec3 \<Rightarrow> real \<Rightarrow> nat \<Rightarrow> vec3 \<times> calc_state \<Rightarrow> vec3 \<times> calc_state" where
  "charge_charge_pair macro p2 m1_r r1 q1 j s =
    (let sum_f1 = fst s;
         cs = snd s;
         forceMask = charges_dist_lookup (soas cs p2) ! j
     in if vcp_simd_movemask forceMask then
          (let q2 = charges_q (soas cs p2) ! j;
               r2 = charges_r (soas cs p2) ! j;
               m2_r = charges_m_r (soas cs p2) ! j;
               r = loopBodyCharge macro m1_r r1 q1 m2_r r2 q2 (sum_upotXpoles cs) (sum_virial cs) forceMask;
               f = fst r;
               cs1 = cs\<lparr>sum_upotXpoles := fst (snd r), sum_virial := snd (snd r)\<rparr>;
               cs2 = upd_soa p2 (charges_f_update (vcp_simd_load_sub_store j f)) cs1
           in (v3add sum_f1 f, cs2))
        else (sum_f1, cs))"

definition charge_charge_site ::
  "ForcePolicy \<Rightarrow> bool \<Rightarrow> nat \<Rightarrow> nat \<Rightarrow> vec3 \<Rightarrow> nat \<Rightarrow> calc_state \<Rightarrow> calc_state" where
  "charge_charge_site policy macro p1 p2 m1_r local_i cs =
    (let idx = i_charge_idx cs + local_i;
         q1 = charges_q (soas cs p1) ! idx;
         r1 = charges_r (soas cs p1) ! idx;
         end_charges_j_longloop = charges_num (soas cs p2);
         s = fold (charge_charge_pair macro p2 m1_r r1 q1)
               [InitJ policy idx ..< end_charges_j_longloop] (VCP_SIMD_ZEROV3, cs)
     in upd_soa p1 (charges_f_update (hSum_Add_Store idx (fst s))) (snd s))"

definition dipole_charge_pair ::
  "bool \<Rightarrow> nat \<Rightarrow> vec3 \<Rightarrow> vec3 \<Rightarrow> vec3 \<Rightarrow> real \<Rightarrow> nat
     \<Rightarrow> vec3 \<times> vec3 \<times> calc_state \<Rightarrow> vec3 \<times> vec3 \<times> calc_state" where
  "dipole_charge_pair macro p2 m1_r r1 e p j s =
    (let sum_f1 = fst s;
         sum_M = fst (snd s);
         cs = snd (snd s);
         forceMask = charges_dist_lookup (soas cs p2) ! j
     in if vcp_simd_movemask forceMask then
          (let q = charges_q (soas cs p2) ! j;
               r2 = charges_r (soas cs p2) ! j;
               m2_r = charges_m_r (soas cs p2) ! j;
               r = loopBodyChargeDipole macro m2_r r2 q m1_r r1 e p
                     (sum_upotXpoles cs) (sum_virial cs) forceMask (NOT 0);
               f = fst r;
               M = fst (snd r);
               cs1 = cs\<lparr>sum_upotXpoles := fst (snd (snd r)), sum_virial := snd (snd (snd r))\<rparr>;
               cs2 = upd_soa p2 (charges_f_update (vcp_simd_load_add_store j f)) cs1
           in (v3sub sum_f1 f, v3add sum_M M, cs2))
        else (sum_f1, sum_M, cs))"

definition dipole_charge_site ::
  "ForcePolicy \<Rightarrow> bool \<Rightarrow> nat \<Rightarrow> nat \<Rightarrow> vec3 \<Rightarrow> nat \<Rightarrow> calc_state \<Rightarrow> calc_state" where
  "dipole_charge_site policy macro p1 p2 m1_r local_i cs =
    (let idx = i_dipole_charge_idx cs;
         p = dipoles_p (soas cs p1) ! idx;
         e = dipoles_e (soas cs p1) ! idx;
         r1 = dipoles_r (soas cs p1) ! idx;
         end_charges_j_longloop = charges_num (soas cs p2);
         s = fold (dipole_charge_pair macro p2 m1_r r1 e p)
               [InitJ policy (i_charge_idx cs) ..< end_charges_j_longloop]
               (VCP_SIMD_ZEROV3, VCP_SIMD_ZEROV3, cs);
         cs1 = upd_soa p1 (dipoles_f_update (hSum_Add_Store idx (fst s))) (snd (snd s));
         cs2 = upd_soa p1 (dipoles_M_update (hSum_Add_Store idx (fst (snd s)))) cs1
     in cs2\<lparr>i_dipole_charge_idx := idx + 1\<rparr>)"

definition quadrupole_charge_pair ::
  "bool \<Rightarrow> nat \<Rightarrow> vec3 \<Rightarrow> vec3 \<Rightarrow> vec3 \<Rightarrow> real \<Rightarrow> nat
     \<Rightarrow> vec3 \<times> vec3 \<times> calc_state \<Rightarrow> vec3 \<times> vec3 \<times> calc_state" where
  "quadrupole_charge_pair macro p2 m1_r r1 e m j s =
    (let sum_f1 = fst s;
         sum_M1 = fst (snd s);
         cs = snd (snd s);
         forceMask = charges_dist_lookup (soas cs p2) ! j
     in if vcp_simd_movemask forceMask then
          (let q = charges_q (soas cs p2) ! j;
               r2 = charges_r (soas cs p2) ! j;
               m2_r = charges_m_r (soas cs p2) ! j;
               r = loopBodyChargeQuadrupole macro m2_r r2 q m1_r r1 e m
                     (sum_upotXpoles cs) (sum_virial cs) forceMask (NOT 0);
               f = fst r;
               M = fst (snd r);
               cs1 = cs\<lparr>sum_upotXpoles := fst (snd (snd r)), sum_virial := snd (snd (snd r))\<rparr>;
               cs2 = upd_soa p2 (charges_f_update (vcp_simd_load_add_store j f)) cs1
           in (v3sub sum_f1 f, v3add sum_M1 M, cs2))
        else (sum_f1, sum_M1, cs))"

definition quadrupole_charge_site ::
  "ForcePolicy \<Rightarrow> bool \<Rightarrow> nat \<Rightarrow> nat \<Rightarrow> vec3 \<Rightarrow> nat \<Rightarrow> calc_state \<Rightarrow> calc_state" where
  "quadrupole_charge_site policy macro p1 p2 m1_r local_i cs =
    (let idx = i_quadrupole_charge_idx cs;
         m = quadrupoles_m (soas cs p1) ! idx;
         e = quadrupoles_e (soas cs p1) ! idx;
         r1 = quadrupoles_r (soas cs p1) ! idx;
         end_charges_j_longloop = charges_num (soas cs p2);
         s = fold (quadrupole_charge_pair macro p2 m1_r r1 e m)
               [InitJ policy (i_charge_idx cs) ..< end_charges_j_longloop]
               (VCP_SIMD_ZEROV3, VCP_SIMD_ZEROV3, cs);
         cs1 = upd_soa p1 (quadrupoles_f_update (hSum_Add_Store idx (fst s))) (snd (snd s));
         cs2 = upd_soa p1 (quadrupoles_M_update (hSum_Add_Store idx (fst (snd s)))) cs1
     in cs2\<lparr>i_quadrupole_charge_idx := idx + 1\<rparr>)"

subsection \<open>Interactions with the dipoles of the second cell\<close>

definition dipole_dipole_pair ::
  "bool \<Rightarrow> VectorizedCellProcessor \<Rightarrow> nat \<Rightarrow> vec3 \<Rightarrow> vec3 \<Rightarrow> vec3 \<Rightarrow> real \<Rightarrow> nat
     \<Rightarrow> vec3 \<times> vec3 \<times> calc_state \<Rightarrow> vec3 \<times> vec3 \<times> calc_state" where
  "dipole_dipole_pair macro proc p2 m1_r r1 e1 p1 j s =
    (let sum_f1 = fst s;
         sum_M1 = fst (snd s);
         cs = snd (snd s);
         forceMask = dipoles_dist_lookup (soas cs p2) ! j
     in if vcp_simd_movemask forceMask then
          (let pj = dipoles_p (soas cs p2) ! j;
               e2 = dipoles_e (soas cs p2) ! j;
               r2 = dipoles_r (soas cs p2) ! j;
               m2_r = dipoles_m_r (soas cs p2) ! j;
               r = loopBodyDipole macro m1_r r1 e1 p1 m2_r r2 e2 pj
                     (sum_upotXpoles cs) (sum_virial cs) (sum_myRF cs) forceMask (epsRFInvrc3 proc);
               f = fst r;
               M1 = fst (snd r);
               M2 = fst (snd (snd r));
               cs1 = cs\<lparr>sum_upotXpoles := fst (snd (snd (snd r))),
                        sum_virial := fst (snd (snd (snd (snd r)))),
                        sum_myRF := snd (snd (snd (snd (snd r))))\<rparr>;
               cs2 = upd_soa p2 (dipoles_f_update (vcp_simd_load_sub_store j f)) cs1;
               cs3 = upd_soa p2 (dipoles_M_update (vcp_simd_load_add_store j M2)) cs2
           in (v3add sum_f1 f, v3add sum_M1 M1, cs3))
        else (sum_f1, sum_M1, cs))"

definition dipole_dipole_site ::
  "ForcePolicy \<Rightarrow> bool \<Rightarrow> VectorizedCellProcessor \<Rightarrow> nat \<Rightarrow> nat \<Rightarrow> vec3 \<Rightarrow> nat
     \<Rightarrow> calc_state \<Rightarrow> calc_state" where
  "dipole_dipole_site policy macro proc p1 p2 m1_r local_i cs =
    (let idx = i_dipole_idx cs + local_i;
         pi1 = dipoles_p (soas cs p1) ! idx;
         e1 = dipoles_e (soas cs p1) ! idx;
         r1 = dipoles_r (soas cs p1) ! idx;
         end_dipoles_j_longloop = dipoles_num (soas cs p2);
         s = fold (dipole_dipole_pair macro proc p2 m1_r r1 e1 pi1)
               [InitJ policy idx ..< end_dipoles_j_longloop]
               (VCP_SIMD_ZEROV3, VCP_SIMD_ZEROV3, cs);
         cs1 = upd_soa p1 (dipoles_f_update (hSum_Add_Store idx (fst s))) (snd (snd s))
     in upd_soa p1 (dipoles_M_update (hSum_Add_Store idx (fst (snd s)))) cs1)"

definition charge_dipole_pair ::
  "bool \<Rightarrow> nat \<Rightarrow> vec3 \<Rightarrow> vec3 \<Rightarrow> real \<Rightarrow> nat \<Rightarrow> vec3 \<times> calc_state \<Rightarrow> vec3 \<times> calc_state" where
  "charge_dipole_pair macro p2 m1_r r1 q j s =
    (let sum_f1 = fst s;
         cs = snd s;
         forceMask = dipoles_dist_lookup (soas cs p2) ! j
     in if vcp_simd_movemask forceMask then
          (let p = dipoles_p (soas cs p2) ! j;
               e = dipoles_e (soas cs p2) ! j;
               r2 = dipoles_r (soas cs p2) ! j;
               m2_r = dipoles_m_r (soas cs p2) ! j;
               r = loopBodyChargeDipole macro m1_r r1 q m2_r r2 e p
                     (sum_upotXpoles cs) (sum_virial cs) forceMask 0;
               f = fst r;
               M = fst (snd r);
               cs1 = cs\<lparr>sum_upotXpoles := fst (snd (snd r)), sum_virial := snd (snd (snd r))\<rparr>;
               cs2 = upd_soa p2 (dipoles_f_update (vcp_simd_load_sub_store j f)) cs1;
               cs3 = upd_soa p2 (dipoles_M_update (vcp_simd_load_add_store j M)) cs2
           in (v3add sum_f1 f, cs3))
        else (sum_f1, cs))"

definition charge_dipole_site ::
  "ForcePolicy \<Rightarrow> bool \<Rightarrow> nat \<Rightarrow> nat \<Rightarrow> vec3 \<Rightarrow> nat \<Rightarrow> calc_state \<Rightarrow> calc_state" where
  "charge_dipole_site policy macro p1 p2 m1_r local_i cs =
    (let idx = i_charge_dipole_idx cs;
         q = charges_q (soas cs p1) ! idx;
         r1 = charges_r (soas cs p1) ! idx;
         end_dipoles_j_longloop = dipoles_num (soas cs p2);
         s = fold (charge_dipole_pair macro p2 m1_r r1 q)
               [InitJ policy (i_dipole_idx cs) ..< end_dipoles_j_longloop] (VCP_SIMD_ZEROV3, cs);
         cs1 = upd_soa p1 (charges_f_update (hSum_Add_Store idx (fst s))) (snd s)
     in cs1\<lparr>i_charge_dipole_idx := idx + 1\<rparr>)"

definition quadrupole_dipole_pair ::
  "bool \<Rightarrow> nat \<Rightarrow> vec3 \<Rightarrow> vec3 \<Rightarrow> vec3 \<Rightarrow> real \<Rightarrow> nat
     \<Rightarrow> vec3 \<times> vec3 \<times> calc_state \<Rightarrow> vec3 \<times> vec3 \<times> calc_state" where
  "quadrupole_dipole_pair macro p2 m1_r r1 e1 m j s =
    (let sum_f1 = fst s;
         sum_M1 = fst (snd s);
         cs = snd (snd s);
         forceMask = dipoles_dist_lookup (soas cs p2) ! j
     in if vcp_simd_movemask forceMask then
          (let p = dipoles_p (soas cs p2) ! j;
               e2 = dipoles_e (soas cs p2) ! j;
               r2 = dipoles_r (soas cs p2) ! j;
               m2_r = dipoles_m_r (soas cs p2) ! j;
               r = loopBodyDipoleQuadrupole macro m2_r r2 e2 p m1_r r1 e1 m
                     (sum_upotXpoles cs) (sum_virial cs) forceMask (NOT 0);
               f = fst r;
               M2 = fst (snd r);
               M1 = fst (snd (snd r));
               cs1 = cs\<lparr>sum_upotXpoles := fst (snd (snd (snd r))),
                        sum_virial := snd (snd (snd (snd r)))\<rparr>;
               cs2 = upd_soa p2 (dipoles_f_update (vcp_simd_load_add_store j f)) cs1;
               cs3 = upd_soa p2 (dipoles_M_update (vcp_simd_load_add_store j M2)) cs2
           in (v3sub sum_f1 f, v3add sum_M1 M1, cs3))
        else (sum_f1, sum_M1, cs))"

definition quadrupole_dipole_site ::
  "ForcePolicy \<Rightarrow> bool \<Rightarrow> nat \<Rightarrow> nat \<Rightarrow> vec3 \<Rightarrow> nat \<Rightarrow> calc_state \<Rightarrow> calc_state" where
  "quadrupole_dipole_site policy macro p1 p2 m1_r local_i cs =
    (let idx = i_quadrupole_dipole_idx cs;
         m = quadrupoles_m (soas cs p1) ! idx;
         e1 = quadrupoles_e (soas cs p1) ! idx;
         r1 = quadrupoles_r (soas cs p1) ! idx;
         end_dipoles_j_longloop = dipoles_num (soas cs p2);
         s = fold (quadrupole_dipole_pair macro p2 m1_r r1 e1 m)
               [InitJ policy (i_dipole_idx cs) ..< end_dipoles_j_longloop]
               (VCP_SIMD_ZEROV3, VCP_SIMD_ZEROV3, cs);
         cs1 = upd_soa p1 (quadrupoles_f_update (hSum_Add_Store idx (fst s))) (snd (snd s));
         cs2 = upd_soa p1 (quadrupoles_M_update (hSum_Add_Store idx (fst (snd s)))) cs1
     in cs2\<lparr>i_quadrupole_dipole_idx := idx + 1\<rparr>)"

subsection \<open>Interactions with the quadrupoles of the second cell\<close>

definition quadrupole_quadrupole_pair ::
  "bool \<Rightarrow> nat \<Rightarrow> vec3 \<Rightarrow> vec3 \<Rightarrow> vec3 \<Rightarrow> real \<Rightarrow> nat
     \<Rightarrow> vec3 \<times> vec3 \<times> calc_state \<Rightarrow> vec3 \<times> vec3 \<times> calc_state" where
  "quadrupole_quadrupole_pair macro p2 m1_r rii eii mii j s =
    (let sum_f1 = fst s;
         sum_M1 = fst (snd s);
         cs = snd (snd s);
         forceMask = quadrupoles_dist_lookup (soas cs p2) ! j
     in if vcp_simd_movemask forceMask then
          (let mjj = quadrupoles_m (soas cs p2) ! j;
               ejj = quadrupoles_e (soas cs p2) ! j;
               rjj = quadrupoles_r (soas cs p2) ! j;
               m2_r = quadrupoles_m_r (soas cs p2) ! j;
               r = loopBodyQuadrupole macro m1_r rii eii mii m2_r rjj ejj mjj
                     (sum_upotXpoles cs) (sum_virial cs) forceMask;
               f = fst r;
               M1 = fst (snd r);
               M2 = fst (snd (snd r));
               cs1 = cs\<lparr>sum_upotXpoles := fst (snd (snd (snd r))),
                        sum_virial := snd (snd (snd (snd r)))\<rparr>;
               cs2 = upd_soa p2 (quadrupoles_f_update (vcp_simd_load_sub_store j f)) cs1;
               cs3 = upd_soa p2 (quadrupoles_M_update (vcp_simd_load_add_store j M2)) cs2
           in (v3add sum_f1 f, v3add sum_M1 M1, cs3))
        else (sum_f1, sum_M1, cs))"

definition quadrupole_quadrupole_site ::
  "ForcePolicy \<Rightarrow> bool \<Rightarrow> nat \<Rightarrow> nat \<Rightarrow> vec3 \<Rightarrow> nat \<Rightarrow> calc_state \<Rightarrow> calc_state" where
  "quadrupole_quadrupole_site policy macro p1 p2 m1_r local_i cs =
    (let idx = i_quadrupole_idx cs + local_i;
         mii = quadrupoles_m (soas cs p1) ! idx;
         eii = quadrupoles_e (soas cs p1) ! idx;
         rii = quadrupoles_r (soas cs p1) ! idx;
         end_quadrupoles_j_longloop = quadrupoles_num (soas cs p2);
         s = fold (quadrupole_quadrupole_pair macro p2 m1_r rii eii mii)
               [InitJ policy idx ..< end_quadrupoles_j_longloop]
               (VCP_SIMD_ZEROV3, VCP_SIMD_ZEROV3, cs);
         cs1 = upd_soa p1 (quadrupoles_f_update (hSum_Add_Store idx (fst s))) (snd (snd s))
     in upd_soa p1 (quadrupoles_M_update (hSum_Add_Store idx (fst (snd s)))) cs1)"

definition charge_quadrupole_pair ::
  "bool \<Rightarrow> nat \<Rightarrow> vec3 \<Rightarrow> vec3 \<Rightarrow> real \<Rightarrow> nat \<Rightarrow> vec3 \<times> calc_state \<Rightarrow> vec3 \<times> calc_state" where
  "charge_quadrupole_pair macro p2 m1_r r1 q j s =
    (let sum_f1 = fst s;
         cs = snd s;
         forceMask = quadrupoles_dist_lookup (soas cs p2) ! j
     in if vcp_simd_movemask forceMask then
          (let m = quadrupoles_m (soas cs p2) ! j;
               e = quadrupoles_e (soas cs p2) ! j;
               r2 = quadrupoles_r (soas cs p2) ! j;
               m2_r = quadrupoles_m_r (soas cs p2) ! j;
               r = loopBodyChargeQuadrupole macro m1_r r1 q m2_r r2 e m
                     (sum_upotXpoles cs) (sum_virial cs) forceMask 0;
               f = fst r;
               M = fst (snd r);
               cs1 = cs\<lparr>sum_upotXpoles := fst (snd (snd r)), sum_virial := snd (snd (snd r))\<rparr>;
               cs2 = upd_soa p2 (quadrupoles_f_update (vcp_simd_load_sub_store j f)) cs1;
               cs3 = upd_soa p2 (quadrupoles_M_update (vcp_simd_load_add_store j M)) cs2
           in (v3add sum_f1 f, cs3))
        else (sum_f1, cs))"

definition charge_quadrupole_site ::
  "ForcePolicy \<Rightarrow> bool \<Rightarrow> nat \<Rightarrow> nat \<Rightarrow> vec3 \<Rightarrow> nat \<Rightarrow> calc_state \<Rightarrow> calc_state" where
  "charge_quadrupole_site policy macro p1 p2 m1_r local_i cs =
    (let idx = i_charge_quadrupole_idx cs;
         q = charges_q (soas cs p1) ! idx;
         r1 = charges_r (soas cs p1) ! idx;
         end_quadrupoles_j_longloop = quadrupoles_num (soas cs p2);
         s = fold (charge_quadrupole_pair macro p2 m1_r r1 q)
               [InitJ policy (i_quadrupole_idx cs) ..< end_quadrupoles_j_longloop]
               (VCP_SIMD_ZEROV3, cs);
         cs1 = upd_soa p1 (charges_f_update (hSum_Add_Store idx (fst s))) (snd s)
     in cs1\<lparr>i_charge_quadrupole_idx := idx + 1\<rparr>)"

definition dipole_quadrupole_pair ::
  "bool \<Rightarrow> nat \<Rightarrow> vec3 \<Rightarrow> vec3 \<Rightarrow> vec3 \<Rightarrow> real \<Rightarrow> nat
     \<Rightarrow> vec3 \<times> vec3 \<times> calc_state \<Rightarrow> vec3 \<times> vec3 \<times> calc_state" where
  "dipole_quadrupole_pair macro p2 m1_r rii eii p j s =
    (let sum_f1 = fst s;
         sum_M1 = fst (snd s);
         cs = snd (snd s);
         forceMask = quadrupoles_dist_lookup (soas cs p2) ! j
     in if vcp_simd_movemask forceMask then
          (let m = quadrupoles_m (soas cs p2) ! j;
               ejj = quadrupoles_e (soas cs p2) ! j;
               rjj = quadrupoles_r (soas cs p2) ! j;
               m2_r = quadrupoles_m_r (soas cs p2) ! j;
               r = loopBodyDipoleQuadrupole macro m1_r rii eii p m2_r rjj ejj m
                     (sum_upotXpoles cs) (sum_virial cs) forceMask 0;
               f = fst r;
               M1 = fst (snd r);
               M2 = fst (snd (snd r));
               cs1 = cs\<lparr>sum_upotXpoles := fst (snd (snd (snd r))),
                        sum_virial := snd (snd (snd (snd r)))\<rparr>;
               cs2 = upd_soa p2 (quadrupoles_f_update (vcp_simd_load_sub_store j f)) cs1;
               cs3 = upd_soa p2 (quadrupoles_M_update (vcp_simd_load_add_store j M2)) cs2
           in (v3add sum_f1 f, v3add sum_M1 M1, cs3))
        else (sum_f1, sum_M1, cs))"

definition dipole_quadrupole_site ::
  "ForcePolicy \<Rightarrow> bool \<Rightarrow> nat \<Rightarrow> nat \<Rightarrow> vec3 \<Rightarrow> nat \<Rightarrow> calc_state \<Rightarrow> calc_state" where
  "dipole_quadrupole_site policy macro p1 p2 m1_r local_i cs =
    (let idx = i_dipole_quadrupole_idx cs;
         p = dipoles_p (soas cs p1) ! idx;
         eii = dipoles_e (soas cs p1) ! idx;
         rii = dipoles_r (soas cs p1) ! idx;
         end_quadrupoles_j_longloop = quadrupoles_num (soas cs p2);
         s = fold (dipole_quadrupole_pair macro p2 m1_r rii eii p)
               [InitJ policy (i_quadrupole_idx cs) ..< end_quadrupoles_j_longloop]
               (VCP_SIMD_ZEROV3, VCP_SIMD_ZEROV3, cs);
         cs1 = upd_soa p1 (dipoles_f_update (hSum_Add_Store idx (fst s))) (snd (snd s));
         cs2 = upd_soa p1 (dipoles_M_update (hSum_Add_Store idx (fst (snd s)))) cs1
     in cs2\<lparr>i_dipole_quadrupole_idx := idx + 1\<rparr>)"


subsection \<open>One source molecule\<close>

text \<open>
  The body of the loop over the molecules \<open>i\<close> of the first cell: the four distance
  lookups, then the Lennard-Jones loop and the three groups of multipole loops.  A
  group whose lookup returned zero only advances its cursors.
\<close>

definition calcDistLookups ::
  "ForcePolicy \<Rightarrow> VectorizedCellProcessor \<Rightarrow> nat \<Rightarrow> nat \<Rightarrow> nat \<Rightarrow> calc_state
     \<Rightarrow> (vcp_mask \<times> vcp_mask \<times> vcp_mask \<times> vcp_mask) \<times> calc_state" where
  "calcDistLookups policy proc p1 p2 i cs =
    (let l = calcDistLookup policy (soas cs p1) i (i_ljc_idx cs) (ljc_num (soas cs p2))
               (LJCutoffRadiusSquare proc) (ljc_dist_lookup (soas cs p2)) (ljc_m_r (soas cs p2));
         cs1 = upd_soa p2 (ljc_dist_lookup_update (\<lambda>_. snd l)) cs;
         c = calcDistLookup policy (soas cs1 p1) i (i_charge_idx cs1) (charges_num (soas cs1 p2))
               (cutoffRadiusSquare proc) (charges_dist_lookup (soas cs1 p2)) (charges_m_r (soas cs1 p2));
         cs2 = upd_soa p2 (charges_dist_lookup_update (\<lambda>_. snd c)) cs1;
         d = calcDistLookup policy (soas cs2 p1) i (i_dipole_idx cs2) (dipoles_num (soas cs2 p2))
               (cutoffRadiusSquare proc) (dipoles_dist_lookup (soas cs2 p2)) (dipoles_m_r (soas cs2 p2));
         cs3 = upd_soa p2 (dipoles_dist_lookup_update (\<lambda>_. snd d)) cs2;
         q = calcDistLookup policy (soas cs3 p1) i (i_quadrupole_idx cs3) (quadrupoles_num (soas cs3 p2))
               (cutoffRadiusSquare proc) (quadrupoles_dist_lookup (soas cs3 p2))
               (quadrupoles_m_r (soas cs3 p2));
         cs4 = upd_soa p2 (quadrupoles_dist_lookup_update (\<lambda>_. snd q)) cs3
     in ((fst l, fst c, fst d, fst q), cs4))"

definition ljc_group ::
  "ForcePolicy \<Rightarrow> bool \<Rightarrow> VectorizedCellProcessor \<Rightarrow> nat \<Rightarrow> nat \<Rightarrow> nat \<Rightarrow> vec3 \<Rightarrow> vcp_mask
     \<Rightarrow> calc_state \<Rightarrow> calc_state" where
  "ljc_group policy macro proc p1 p2 i m1_r compute_molecule_ljc cs =
    (if \<not> vcp_simd_movemask compute_molecule_ljc then
       cs\<lparr>i_ljc_idx := i_ljc_idx cs + mol_ljc_num (soas cs p1) ! i\<rparr>
     else fold (ljc_site policy macro proc p1 p2 m1_r) [0 ..< mol_ljc_num (soas cs p1) ! i] cs)"

definition charges_group ::
  "ForcePolicy \<Rightarrow> bool \<Rightarrow> nat \<Rightarrow> nat \<Rightarrow> nat \<Rightarrow> vec3 \<Rightarrow> vcp_mask \<Rightarrow> calc_state \<Rightarrow> calc_state" where
  "charges_group policy macro p1 p2 i m1_r compute_molecule_charges cs =
    (if \<not> vcp_simd_movemask compute_molecule_charges then
       cs\<lparr>i_charge_idx := i_charge_idx cs + mol_charges_num (soas cs p1) ! i,
          i_dipole_charge_idx := i_dipole_charge_idx cs + mol_dipoles_num (soas cs p1) ! i,
          i_quadrupole_charge_idx := i_quadrupole_charge_idx cs + mol_quadrupoles_num (soas cs p1) ! i\<rparr>
     else
       (let a = fold (charge_charge_site policy macro p1 p2 m1_r)
                  [0 ..< mol_charges_num (soas cs p1) ! i] cs;
            b = fold (dipole_charge_site policy macro p1 p2 m1_r)
                  [0 ..< mol_dipoles_num (soas a p1) ! i] a;
            c = fold (quadrupole_charge_site policy macro p1 p2 m1_r)
                  [0 ..< mol_quadrupoles_num (soas b p1) ! i] b
        in c\<lparr>i_charge_idx := i_charge_idx c + mol_charges_num (soas c p1) ! i\<rparr>))"

definition dipoles_group ::
  "ForcePolicy \<Rightarrow> bool \<Rightarrow> VectorizedCellProcessor \<Rightarrow> nat \<Rightarrow> nat \<Rightarrow> nat \<Rightarrow> vec3 \<Rightarrow> vcp_mask
     \<Rightarrow> calc_state \<Rightarrow> calc_state" where
  "dipoles_group policy macro proc p1 p2 i m1_r compute_molecule_dipoles cs =
    (if \<not> vcp_simd_movemask compute_molecule_dipoles then
       cs\<lparr>i_dipole_idx := i_dipole_idx cs + mol_dipoles_num (soas cs p1) ! i,
          i_charge_dipole_idx := i_charge_dipole_idx cs + mol_charges_num (soas cs p1) ! i,
          i_quadrupole_dipole_idx := i_quadrupole_dipole_idx cs + mol_quadrupoles_num (soas cs p1) ! i\<rparr>
     else
       (let a = fold (dipole_dipole_site policy macro proc p1 p2 m1_r)
                  [0 ..< mol_dipoles_num (soas cs p1) ! i] cs;
            b = fold (charge_dipole_site policy macro p1 p2 m1_r)
                  [0 ..< mol_charges_num (soas a p1) ! i] a;
            c = fold (quadrupole_dipole_site policy macro p1 p2 m1_r)
                  [0 ..< mol_quadrupoles_num (soas b p1) ! i] b
        in c\<lparr>i_dipole_idx := i_dipole_idx c + mol_dipoles_num (soas c p1) ! i\<rparr>))"

definition quadrupoles_group ::
  "ForcePolicy \<Rightarrow> bool \<Rightarrow> nat \<Rightarrow> nat \<Rightarrow> nat \<Rightarrow> vec3 \<Rightarrow> vcp_mask \<Rightarrow> calc_state \<Rightarrow> calc_state" where
  "quadrupoles_group policy macro p1 p2 i m1_r compute_molecule_quadrupoles cs =
    (if \<not> vcp_simd_movemask compute_molecule_quadrupoles then
       cs\<lparr>i_quadrupole_idx := i_quadrupole_idx cs + mol_quadrupoles_num (soas cs p1) ! i,
          i_charge_quadrupole_idx := i_charge_quadrupole_idx cs + mol_charges_num (soas cs p1) ! i,
          i_dipole_quadrupole_idx := i_dipole_quadrupole_idx cs + mol_dipoles_num (soas cs p1) ! i\<rparr>
     else
       (let a = fold (quadrupole_quadrupole_site policy macro p1 p2 m1_r)
                  [0 ..< mol_quadrupoles_num (soas cs p1) ! i] cs;
            b = fold (charge_quadrupole_site policy macro p1 p2 m1_r)
                  [0 ..< mol_charges_num (soas a p1) ! i] a;
            c = fold (dipole_quadrupole_site policy macro p1 p2 m1_r)
                  [0 ..< mol_dipoles_num (soas b p1) ! i] b
        in c\<lparr>i_quadrupole_idx := i_quadrupole_idx c + mol_quadrupoles_num (soas c p1) ! i\<rparr>))"

definition calc_molecule ::
  "ForcePolicy \<Rightarrow> bool \<Rightarrow> VectorizedCellProcessor \<Rightarrow> nat \<Rightarrow> nat \<Rightarrow> nat \<Rightarrow> calc_state \<Rightarrow> calc_state" where
  "calc_molecule policy macro proc p1 p2 i cs =
    (let m1_r = mol_pos (soas cs p1) ! i;
         lk = calcDistLookups policy proc p1 p2 i cs;
         compute_molecule_ljc = fst (fst lk);
         compute_molecule_charges = fst (snd (fst lk));
         compute_molecule_dipoles = fst (snd (snd (fst lk)));
         compute_molecule_quadrupoles = snd (snd (snd (fst lk)));
         cs1 = ljc_group policy macro proc p1 p2 i m1_r compute_molecule_ljc (snd lk);
         cs2 = charges_group policy macro p1 p2 i m1_r compute_molecule_charges cs1;
         cs3 = dipoles_group policy macro proc p1 p2 i m1_r compute_molecule_dipoles cs2
     in quadrupoles_group policy macro p1 p2 i m1_r compute_molecule_quadrupoles cs3)"


section \<open>The traversal entry points\<close>

text \<open>
  A \<^verbatim>\<open>ParticleCell\<close> as the cell processor sees it: its halo flag, its index and the
  pointer to its \<^verbatim>\<open>CellDataSoA\<close> (\<open>None\<close> is the null pointer).  Cells and SoA
  objects live in heaps indexed by address.  The field \<open>kernel_calls\<close> is
  instrumentation: it records every instance of \<^verbatim>\<open>_calculatePairs\<close> that is
  invoked, with its two template arguments.
\<close>

datatype invocation = Invocation ForcePolicy bool

record ParticleCell =
  isHaloCell :: bool
  cellIndex :: nat
  cellDataSoA :: "nat option"

record machine =
  vcp :: VectorizedCellProcessor
  cells :: "nat \<Rightarrow> ParticleCell"
  soa_heap :: "nat \<Rightarrow> CellDataSoA"
  kernel_calls :: "invocation list"

datatype error = AssertionFailed

definition calc_init :: "(nat \<Rightarrow> CellDataSoA) \<Rightarrow> calc_state" where
  "calc_init h =
     \<lparr> sum_upot6lj = 0, sum_upotXpoles = 0, sum_virial = 0, sum_myRF = 0,
       i_ljc_idx = 0, i_charge_idx = 0, i_charge_dipole_idx = 0, i_charge_quadrupole_idx = 0,
       i_dipole_charge_idx = 0, i_dipole_idx = 0, i_dipole_quadrupole_idx = 0,
       i_quadrupole_charge_idx = 0, i_quadrupole_dipole_idx = 0, i_quadrupole_idx = 0,
       soas = h \<rparr>"

definition calculatePairs :: "ForcePolicy \<Rightarrow> bool \<Rightarrow> nat \<Rightarrow> nat \<Rightarrow> machine \<Rightarrow> machine" where
  "calculatePairs policy macro p1 p2 st =
    (let cs = fold (calc_molecule policy macro (vcp st) p1 p2)
                [0 ..< mol_num (soa_heap st p1)] (calc_init (soa_heap st))
     in st\<lparr> vcp := (vcp st)\<lparr> upot6lj := upot6lj (vcp st) + sum_upot6lj cs,
                             upotXpoles := upotXpoles (vcp st) + sum_upotXpoles cs,
                             virial := virial (vcp st) + sum_virial cs,
                             myRF := myRF (vcp st) + (0 - sum_myRF cs) \<rparr>,
            soa_heap := soas cs,
            kernel_calls := kernel_calls st @ [Invocation policy macro] \<rparr>)"

definition processCell :: "nat \<Rightarrow> machine \<Rightarrow> error + machine" where
  "processCell a st =
    (let c = cells st a in
     case cellDataSoA c of
       None \<Rightarrow> Inl AssertionFailed
     | Some p \<Rightarrow>
         if isHaloCell c \<or> mol_num (soa_heap st p) < 2 then Inr st
         else Inr (calculatePairs SingleCellPolicy True p p st))"

definition processCellPair :: "nat \<Rightarrow> nat \<Rightarrow> machine \<Rightarrow> error + machine" where
  "processCellPair a1 a2 st =
    (let c1 = cells st a1; c2 = cells st a2 in
     if a1 = a2 then Inl AssertionFailed
     else case cellDataSoA c1 of
       None \<Rightarrow> Inl AssertionFailed
     | Some p1 \<Rightarrow>
        (case cellDataSoA c2 of
           None \<Rightarrow> Inl AssertionFailed
         | Some p2 \<Rightarrow>
             if mol_num (soa_heap st p1) = 0 \<or> mol_num (soa_heap st p2) = 0 then Inr st
             else if \<not> (isHaloCell c1 \<or> isHaloCell c2) then
               Inr (calculatePairs CellPairPolicy True p1 p2 st)
             else if isHaloCell c1 = (\<not> isHaloCell c2) then
               (if cellIndex c1 < cellIndex c2 then
                  Inr (calculatePairs CellPairPolicy True p1 p2 st)
                else Inr (calculatePairs CellPairPolicy False p1 p2 st))
             else Inr st))"


section \<open>One-stage neighbour exchange\<close>

text \<open>
  \<^verbatim>\<open>NeighbourCommunicationScheme1Stage::finalizeExchangeMoleculesMPI\<close>.  The
  communication partners (\<^verbatim>\<open>testSend\<close>, \<^verbatim>\<open>iprobeCount\<close>, \<^verbatim>\<open>testRecv\<close>,
  \<^verbatim>\<open>deadlockDiagnosticSendRecv\<close>) and the clock \<^verbatim>\<open>MPI_Wtime\<close> belong to the
  environment.  One \<open>observation\<close> holds what the environment answers in one
  iteration of the \<^verbatim>\<open>while\<close> loop: the result of each of the three calls for every
  neighbour and the clock reading taken after them.  The loop consumes a list of
  observations and produces the calls and log lines it issues; if the observations
  end while the loop is still waiting, the outcome is \<open>Waiting\<close>.
\<close>

datatype comm_event =
    TestSend nat
  | IprobeCount nat
  | TestRecv nat bool
  | DeadlockWarning real
  | DeadlockDiagnostic nat
  | DeadlockError real

datatype outcome = AllDone | Exit int | Waiting

record observation =
  ob_testSend :: "nat \<Rightarrow> bool"
  ob_iprobeCount :: "nat \<Rightarrow> bool"
  ob_testRecv :: "nat \<Rightarrow> bool"
  ob_wtime :: real

text \<open>The indices \<open>i\<close> of the neighbours with \<^verbatim>\<open>getRank() != _neighbours[0][i].getRank()\<close>.\<close>

definition other_ranks :: "int \<Rightarrow> int list \<Rightarrow> nat list" where
  "other_ranks rank neighbours = filter (\<lambda>i. rank \<noteq> neighbours ! i) [0 ..< length neighbours]"

definition deadlockDiagnostics :: "int \<Rightarrow> int list \<Rightarrow> comm_event list" where
  "deadlockDiagnostics rank neighbours = map DeadlockDiagnostic (other_ranks rank neighbours)"

definition deadlockTimeOut :: real where
  "deadlockTimeOut = 60.0"

text \<open>
  The value of \<^verbatim>\<open>allDone\<close> after the three passes of one iteration: every call of
  every neighbour on another rank returned true (\<^verbatim>\<open>allDone &= \<dots>\<close> evaluates each call).
\<close>

definition allDone_of :: "int \<Rightarrow> int list \<Rightarrow> observation \<Rightarrow> bool" where
  "allDone_of rank neighbours ob =
    (let ns = other_ranks rank neighbours
     in list_all (ob_testSend ob) ns \<and> list_all (ob_iprobeCount ob) ns
          \<and> list_all (ob_testRecv ob) ns)"

definition warning_thresholds :: "comm_event list \<Rightarrow> real list" where
  "warning_thresholds evs =
     List.map_filter (\<lambda>e. case e of DeadlockWarning c \<Rightarrow> Some c | _ \<Rightarrow> None) evs"

record iteration_result =
  it_allDone :: bool
  it_waitCounter :: real
  it_events :: "comm_event list"
  it_exit :: "int option"

definition finalize_iteration ::
  "int \<Rightarrow> int list \<Rightarrow> bool \<Rightarrow> real \<Rightarrow> real \<Rightarrow> observation \<Rightarrow> iteration_result" where
  "finalize_iteration rank neighbours removeRecvDuplicates startTime waitCounter ob =
    (let ns = other_ranks rank neighbours;
         allDone = allDone_of rank neighbours ob;
         calls = map TestSend ns @ map IprobeCount ns
                   @ map (\<lambda>i. TestRecv i removeRecvDuplicates) ns;
         waitingTime = ob_wtime ob - startTime;
         warning = (if waitingTime > waitCounter
                    then DeadlockWarning waitCounter # deadlockDiagnostics rank neighbours else []);
         waitCounter1 = (if waitingTime > waitCounter then waitCounter + 1.0 else waitCounter);
         fatal = (if waitingTime > deadlockTimeOut
                  then DeadlockError deadlockTimeOut # deadlockDiagnostics rank neighbours else [])
     in \<lparr> it_allDone = allDone, it_waitCounter = waitCounter1,
          it_events = calls @ warning @ fatal,
          it_exit = (if waitingTime > deadlockTimeOut then Some 457 else None) \<rparr>)"

fun finalize_loop ::
  "int \<Rightarrow> int list \<Rightarrow> bool \<Rightarrow> real \<Rightarrow> real \<Rightarrow> observation list \<Rightarrow> outcome \<times> comm_event list" where
  "finalize_loop rank neighbours removeRecvDuplicates startTime waitCounter [] = (Waiting, [])"
| "finalize_loop rank neighbours removeRecvDuplicates startTime waitCounter (ob # obs) =
    (let r = finalize_iteration rank neighbours removeRecvDuplicates startTime waitCounter ob in
     case it_exit r of
       Some code \<Rightarrow> (Exit code, it_events r)
     | None \<Rightarrow>
         if it_allDone r then (AllDone, it_events r)
         else (let rest = finalize_loop rank neighbours removeRecvDuplicates startTime
                            (it_waitCounter r) obs
               in (fst rest, it_events r @ snd rest)))"

definition finalizeExchangeMoleculesMPI ::
  "int \<Rightarrow> int list \<Rightarrow> (nat \<Rightarrow> bool) \<Rightarrow> bool \<Rightarrow> real \<Rightarrow> observation list
     \<Rightarrow> outcome \<times> comm_event list" where
  "finalizeExchangeMoleculesMPI rank neighbours coversWholeDomain removeRecvDuplicates startTime obs =
    (let removeRecvDuplicates1 =
           fold (\<lambda>d r. r \<and> coversWholeDomain d) [0 ..< 3] removeRecvDuplicates;
         waitCounter = 1.0
     in finalize_loop rank neighbours removeRecvDuplicates1 startTime waitCounter obs)"


section \<open>Mirror plug-in: reading the configuration\<close>

text \<open>
  \<^verbatim>\<open>Mirror::readXML\<close> exists in two versions in the sources.  In both,
  \<^verbatim>\<open>xmlconfig.getNodeValue(path, var)\<close> stores the node's value in \<open>var\<close> and returns
  whether the node was found; a node is an \<open>option\<close> here.  The enumerations
  \<^verbatim>\<open>MirrorType\<close> and \<^verbatim>\<open>MirrorDirection\<close> are declared in a header that is not part
  of the sources, so the configuration carries \<^verbatim>\<open>@type\<close> and \<^verbatim>\<open>direction\<close> already
  cast to the enumeration.  \<^verbatim>\<open>Simulation::exit(code)\<close> ends the program: the model
  returns the code on the left.  Log output and the members that no exit depends on
  are left out.
\<close>

datatype MirrorType =
    MT_UNKNOWN | MT_REFLECT | MT_FORCE_CONSTANT | MT_ZERO_GRADIENT
  | MT_NORMDISTR_MB | MT_MELAND_2004 | MT_RAMPING

datatype MirrorDirection = MD_LEFT_MIRROR | MD_RIGHT_MIRROR | MD_OTHER

record MirrorXML =
  xml_type :: MirrorType
  xml_position_refID :: "int option"
  xml_meland_fixed_probability :: "real option"
  xml_meland_velo_target :: "real option"
  xml_ramping_start :: "nat option"
  xml_ramping_stop :: "nat option"
  xml_ramping_treatment :: "int option"

record Mirror =
  mirror_type :: MirrorType
  position_ref_id :: nat
  meland_fixed_probability_factor :: real
  meland_velo_target :: real
  ramping_startStep :: nat
  ramping_stopStep :: nat
  ramping_treatment :: int

text \<open>The version of \<^verbatim>\<open>src/plugins/Mirror.cpp\<close>.\<close>

definition Mirror_readXML :: "MirrorXML \<Rightarrow> bool \<Rightarrow> Mirror \<Rightarrow> int + Mirror" where
  "Mirror_readXML xml subject_found m0 =
    (let id = (case xml_position_refID xml of None \<Rightarrow> 0 | Some v \<Rightarrow> v);
         ref_id = nat (id mod 65536);
         m1 = m0\<lparr>position_ref_id := ref_id, mirror_type := xml_type xml\<rparr>
     in if ref_id > 0 \<and> \<not> subject_found then Inl (- 1)
        else if xml_type xml = MT_ZERO_GRADIENT then Inl (- 1)
        else if xml_type xml = MT_NORMDISTR_MB then Inl (- 1)
        else if xml_type xml = MT_MELAND_2004 then
          (let m2 = (case xml_meland_fixed_probability xml of
                       None \<Rightarrow> m1 | Some v \<Rightarrow> m1\<lparr>meland_fixed_probability_factor := v\<rparr>)
           in case xml_meland_velo_target xml of
                None \<Rightarrow> Inl (- 2004)
              | Some v \<Rightarrow> Inr (m2\<lparr>meland_velo_target := v\<rparr>))
        else if xml_type xml = MT_RAMPING then
          (case xml_ramping_start xml of
             None \<Rightarrow> Inl (- 1)
           | Some a \<Rightarrow>
              (case xml_ramping_stop xml of
                 None \<Rightarrow> Inl (- 1)
               | Some b \<Rightarrow>
                  (case xml_ramping_treatment xml of
                     None \<Rightarrow> Inl (- 1)
                   | Some t \<Rightarrow>
                       if a > b then Inl (- 1)
                       else if t = 0 \<or> t = 1 then
                         Inr (m1\<lparr>ramping_startStep := a, ramping_stopStep := b,
                                  ramping_treatment := t\<rparr>)
                       else Inl (- 1))))
        else Inr m1)"

text \<open>
  The other version (the file of the sources whose name is not known).  Its
  \<^verbatim>\<open>MT_NORMDISTR_MB\<close> branch calls \<^verbatim>\<open>readNormDistr\<close>, which exits with \<open>-1\<close> when
  one of the two files cannot be opened or when a value is read while the direction
  is neither enumerator; whether the files open and how many values the second one
  holds is given by the environment.
\<close>

record MirrorXML_old =
  xo_type :: MirrorType
  xo_direction :: MirrorDirection
  xo_dir :: "string option"
  xo_norm_vxz :: "string option"
  xo_norm_vy :: "string option"
  xo_meland_use_probability :: "bool option"
  xo_meland_velo_target :: "real option"

record Mirror_old =
  mo_type :: MirrorType
  mo_direction :: MirrorDirection
  mo_use_probability_factor :: bool
  mo_velo_target :: real

definition readNormDistr :: "MirrorDirection \<Rightarrow> bool \<Rightarrow> bool \<Rightarrow> nat \<Rightarrow> int option" where
  "readNormDistr direction vxz_is_open vy_is_open vy_count =
    (if \<not> vxz_is_open \<or> \<not> vy_is_open then Some (- 1)
     else if vy_count > 0 \<and> direction \<noteq> MD_LEFT_MIRROR \<and> direction \<noteq> MD_RIGHT_MIRROR
       then Some (- 1)
     else None)"

definition Mirror_readXML_old ::
  "MirrorXML_old \<Rightarrow> bool \<Rightarrow> bool \<Rightarrow> nat \<Rightarrow> Mirror_old \<Rightarrow> int + Mirror_old" where
  "Mirror_readXML_old xml vxz_is_open vy_is_open vy_count m0 =
    (let direction = (if xo_dir xml = Some ''|<--'' then MD_LEFT_MIRROR
                      else if xo_dir xml = Some ''-->|'' then MD_RIGHT_MIRROR
                      else xo_direction xml);
         m1 = m0\<lparr>mo_type := xo_type xml, mo_direction := direction\<rparr>;
         norm_exit = (if xo_type xml = MT_NORMDISTR_MB \<and> xo_norm_vxz xml \<noteq> None
                         \<and> xo_norm_vy xml \<noteq> None
                      then readNormDistr direction vxz_is_open vy_is_open vy_count else None)
     in case norm_exit of
          Some code \<Rightarrow> Inl code
        | None \<Rightarrow>
            if xo_type xml = MT_MELAND_2004 then
              (case xo_meland_use_probability xml of
                 None \<Rightarrow> Inl (- 2004)
               | Some u \<Rightarrow>
                  (case xo_meland_velo_target xml of
                     None \<Rightarrow> Inl (- 2004)
                   | Some v \<Rightarrow> Inr (m1\<lparr>mo_use_probability_factor := u, mo_velo_target := v\<rparr>)))
            else Inr m1)"


section \<open>Example configurations\<close>

text \<open>
  Small concrete states on which the theorems below are instantiated: a cell
  without molecules, a cell with one molecule carrying one Lennard-Jones centre, a
  processor whose tables hold one centre (\<open>\<epsilon>\<cdot>24 = 24\<close>, \<open>\<sigma>\<^sup>2 = 1\<close>, no shift), and a
  machine with two cells at addresses and indices \<open>0\<close> and \<open>1\<close>.
\<close>

definition soa_empty :: CellDataSoA where
  "soa_empty =
     \<lparr> mol_num = 0, ljc_num = 0, charges_num = 0, dipoles_num = 0, quadrupoles_num = 0,
       mol_pos = [], mol_ljc_num = [], mol_charges_num = [], mol_dipoles_num = [],
       mol_quadrupoles_num = [],
       ljc_m_r = [], ljc_r = [], ljc_f = [], ljc_id = [], ljc_dist_lookup = [],
       charges_m_r = [], charges_r = [], charges_f = [], charges_q = [], charges_dist_lookup = [],
       dipoles_m_r = [], dipoles_r = [], dipoles_f = [], dipoles_p = [], dipoles_e = [],
       dipoles_M = [], dipoles_dist_lookup = [],
       quadrupoles_m_r = [], quadrupoles_r = [], quadrupoles_f = [], quadrupoles_m = [],
       quadrupoles_e = [], quadrupoles_M = [], quadrupoles_dist_lookup = [] \<rparr>"

definition soa_lj1 :: "vec3 \<Rightarrow> CellDataSoA" where
  "soa_lj1 pos =
     soa_empty\<lparr> mol_num := 1, ljc_num := 1, mol_pos := [pos], mol_ljc_num := [1],
                mol_charges_num := [0], mol_dipoles_num := [0], mol_quadrupoles_num := [0],
                ljc_m_r := [pos], ljc_r := [pos], ljc_f := [(0, 0, 0)], ljc_id := [0],
                ljc_dist_lookup := [0] \<rparr>"

definition proc_example :: VectorizedCellProcessor where
  "proc_example = VectorizedCellProcessor_init 1 3 3 [[24, 1]] [[0]]"

definition machine_example :: "CellDataSoA \<Rightarrow> CellDataSoA \<Rightarrow> bool \<Rightarrow> bool \<Rightarrow> machine" where
  "machine_example s0 s1 h0 h1 =
     \<lparr> vcp = proc_example,
       cells = (\<lambda>a. \<lparr> isHaloCell = (if a = 0 then h0 else h1), cellIndex = a,
                      cellDataSoA = Some a \<rparr>),
       soa_heap = (\<lambda>p. if p = 0 then s0 else s1),
       kernel_calls = [] \<rparr>"

definition mirror_initial :: Mirror where
  "mirror_initial =
     \<lparr> mirror_type = MT_UNKNOWN, position_ref_id = 0, meland_fixed_probability_factor = 0,
       meland_velo_target = 0, ramping_startStep = 0, ramping_stopStep = 0,
       ramping_treatment = 0 \<rparr>"

definition mirror_old_initial :: Mirror_old where
  "mirror_old_initial =
     \<lparr> mo_type = MT_UNKNOWN, mo_direction = MD_LEFT_MIRROR,
       mo_use_probability_factor = True, mo_velo_target = 0.4 \<rparr>"

text \<open>A configuration that selects the Meland2004 mirror and gives none of its parameters.\<close>

definition xml_meland_incomplete :: MirrorXML where
  "xml_meland_incomplete =
     \<lparr> xml_type = MT_MELAND_2004, xml_position_refID = None,
       xml_meland_fixed_probability = None, xml_meland_velo_target = None,
       xml_ramping_start = None, xml_ramping_stop = None, xml_ramping_treatment = None \<rparr>"

definition xml_old_meland_incomplete :: MirrorXML_old where
  "xml_old_meland_incomplete =
     \<lparr> xo_type = MT_MELAND_2004, xo_direction = MD_LEFT_MIRROR, xo_dir = None,
       xo_norm_vxz = None, xo_norm_vy = None,
       xo_meland_use_probability = None, xo_meland_velo_target = None \<rparr>"

text \<open>
  An iteration of the finalize loop in which every call of every neighbour returns
  \<open>done\<close>, observed at clock reading \<open>t\<close>.
\<close>

definition ob_at :: "bool \<Rightarrow> real \<Rightarrow> observation" where
  "ob_at done t =
     \<lparr> ob_testSend = (\<lambda>_. done), ob_iprobeCount = (\<lambda>_. done), ob_testRecv = (\<lambda>_. done),
       ob_wtime = t \<rparr>"




text \<open>
  A cell with one molecule that carries one site of each kind, and the state of
  \<^verbatim>\<open>_calculatePairs\<close> at loop entry over a heap that holds this cell everywhere.
\<close>

definition soa_multi :: CellDataSoA where
  "soa_multi =
     \<lparr> mol_num = 1, ljc_num = 1, charges_num = 1, dipoles_num = 1, quadrupoles_num = 1,
       mol_pos = [(0, 0, 0)], mol_ljc_num = [1], mol_charges_num = [1], mol_dipoles_num = [1],
       mol_quadrupoles_num = [1],
       ljc_m_r = [(0, 0, 0)], ljc_r = [(0, 0, 0)], ljc_f = [(0, 0, 0)], ljc_id = [0],
       ljc_dist_lookup = [0],
       charges_m_r = [(0, 0, 0)], charges_r = [(0, 0, 0)], charges_f = [(0, 0, 0)],
       charges_q = [1], charges_dist_lookup = [0],
       dipoles_m_r = [(0, 0, 0)], dipoles_r = [(0, 0, 0)], dipoles_f = [(0, 0, 0)],
       dipoles_p = [1], dipoles_e = [(0, 0, 1)], dipoles_M = [(0, 0, 0)],
       dipoles_dist_lookup = [0],
       quadrupoles_m_r = [(0, 0, 0)], quadrupoles_r = [(0, 0, 0)], quadrupoles_f = [(0, 0, 0)],
       quadrupoles_m = [1], quadrupoles_e = [(0, 0, 1)], quadrupoles_M = [(0, 0, 0)],
       quadrupoles_dist_lookup = [0] \<rparr>"

definition calc_state_multi :: calc_state where
  "calc_state_multi = calc_init (\<lambda>p. soa_multi)"



section \<open>Auxiliary notions for the statements\<close>


text \<open>The sum of a list of force triples.\<close>

definition v3sum :: "vec3 list \<Rightarrow> vec3" where
  "v3sum vs = foldr v3add vs VCP_SIMD_ZEROV3"

definition clear_sums :: "calc_state \<Rightarrow> calc_state" where
  "clear_sums cs = cs\<lparr>sum_upot6lj := 0, sum_upotXpoles := 0, sum_virial := 0, sum_myRF := 0\<rparr>"

text \<open>
  The force and torque outputs of each pair routine, taken from the instance without
  macroscopic accumulation.  The lemmas below show that the instance with
  accumulation produces the same outputs.
\<close>

definition outputs_LJ :: "vec3 \<Rightarrow> vec3 \<Rightarrow> vec3 \<Rightarrow> vec3 \<Rightarrow> vcp_mask \<Rightarrow> real \<Rightarrow> real \<Rightarrow> real \<Rightarrow> vec3" where
  "outputs_LJ m1 r1 m2 r2 fm e24 s2 sh = fst (loopBodyLJ False m1 r1 m2 r2 0 0 fm e24 s2 sh)"

definition outputs_Charge :: "vec3 \<Rightarrow> vec3 \<Rightarrow> real \<Rightarrow> vec3 \<Rightarrow> vec3 \<Rightarrow> real \<Rightarrow> vcp_mask \<Rightarrow> vec3" where
  "outputs_Charge m1 r1 q1 m2 r2 q2 fm = fst (loopBodyCharge False m1 r1 q1 m2 r2 q2 0 0 fm)"

definition outputs_ChargeDipole ::
  "vec3 \<Rightarrow> vec3 \<Rightarrow> real \<Rightarrow> vec3 \<Rightarrow> vec3 \<Rightarrow> vec3 \<Rightarrow> real \<Rightarrow> vcp_mask \<Rightarrow> vcp_mask \<Rightarrow> vec3 \<times> vec3" where
  "outputs_ChargeDipole m1 r1 q m2 r2 e p fm sw =
     (let r = loopBodyChargeDipole False m1 r1 q m2 r2 e p 0 0 fm sw in (fst r, fst (snd r)))"

definition outputs_Dipole ::
  "vec3 \<Rightarrow> vec3 \<Rightarrow> vec3 \<Rightarrow> real \<Rightarrow> vec3 \<Rightarrow> vec3 \<Rightarrow> vec3 \<Rightarrow> real \<Rightarrow> vcp_mask \<Rightarrow> real
     \<Rightarrow> vec3 \<times> vec3 \<times> vec3" where
  "outputs_Dipole m1 r1 e1 q1 m2 r2 e2 q2 fm rf =
     (let r = loopBodyDipole False m1 r1 e1 q1 m2 r2 e2 q2 0 0 0 fm rf
      in (fst r, fst (snd r), fst (snd (snd r))))"

definition outputs_ChargeQuadrupole ::
  "vec3 \<Rightarrow> vec3 \<Rightarrow> real \<Rightarrow> vec3 \<Rightarrow> vec3 \<Rightarrow> vec3 \<Rightarrow> real \<Rightarrow> vcp_mask \<Rightarrow> vcp_mask \<Rightarrow> vec3 \<times> vec3" where
  "outputs_ChargeQuadrupole m1 r1 q m2 r2 e m fm sw =
     (let r = loopBodyChargeQuadrupole False m1 r1 q m2 r2 e m 0 0 fm sw in (fst r, fst (snd r)))"

definition outputs_DipoleQuadrupole ::
  "vec3 \<Rightarrow> vec3 \<Rightarrow> vec3 \<Rightarrow> real \<Rightarrow> vec3 \<Rightarrow> vec3 \<Rightarrow> vec3 \<Rightarrow> real \<Rightarrow> vcp_mask \<Rightarrow> vcp_mask
     \<Rightarrow> vec3 \<times> vec3 \<times> vec3" where
  "outputs_DipoleQuadrupole m1 r1 e1 q1 m2 r2 e2 q2 fm sw =
     (let r = loopBodyDipoleQuadrupole False m1 r1 e1 q1 m2 r2 e2 q2 0 0 fm sw
      in (fst r, fst (snd r), fst (snd (snd r))))"

definition outputs_Quadrupole ::
  "vec3 \<Rightarrow> vec3 \<Rightarrow> vec3 \<Rightarrow> real \<Rightarrow> vec3 \<Rightarrow> vec3 \<Rightarrow> vec3 \<Rightarrow> real \<Rightarrow> vcp_mask
     \<Rightarrow> vec3 \<times> vec3 \<times> vec3" where
  "outputs_Quadrupole m1 r1 e1 q1 m2 r2 e2 q2 fm =
     (let r = loopBodyQuadrupole False m1 r1 e1 q1 m2 r2 e2 q2 0 0 fm
      in (fst r, fst (snd r), fst (snd (snd r))))"


section \<open>The specification's formulas\<close>

text \<open>
  The quantities the specification names for the Lennard-Jones routine, written as
  it writes them: with \<open>s\<^sup>2 = \<sigma>\<^sup>2 / r\<^sup>2\<close>, \<open>s\<^sup>6 = (s\<^sup>2)\<^sup>3\<close> and \<open>s\<^sup>1\<^sup>2 = (s\<^sup>6)\<^sup>2\<close>, the force
  scale is \<open>(\<epsilon>\<cdot>24 / r\<^sup>2) (2 s\<^sup>1\<^sup>2 - s\<^sup>6)\<close> and the energy term
  \<open>(\<epsilon>\<cdot>24) (s\<^sup>1\<^sup>2 - s\<^sup>6) + shift\<cdot>6\<close>.  These are compared with \<open>loopBodyLJ\<close> below.
\<close>

definition norm2 :: "vec3 \<Rightarrow> real" where
  "norm2 d = vx d * vx d + vy d * vy d + vz d * vz d"

definition v3scale :: "real \<Rightarrow> vec3 \<Rightarrow> vec3" where
  "v3scale k d = (vx d * k, vy d * k, vz d * k)"

definition spec_LJ_scale :: "real \<Rightarrow> real \<Rightarrow> real \<Rightarrow> real" where
  "spec_LJ_scale eps_24 sig2 rsq =
     (let s2 = sig2 / rsq; s6 = s2 ^ 3; s12 = s6 ^ 2
      in (eps_24 / rsq) * (2 * s12 - s6))"

definition spec_LJ_upot6 :: "real \<Rightarrow> real \<Rightarrow> real \<Rightarrow> real \<Rightarrow> real" where
  "spec_LJ_upot6 eps_24 sig2 sh6 rsq =
     (let s2 = sig2 / rsq; s6 = s2 ^ 3; s12 = s6 ^ 2
      in eps_24 * (s12 - s6) + sh6)"



section \<open>Reaction-field prefactor\<close>

lemma epsRF_rescale:
  fixes e R :: real
  assumes "0 < e"
  shows "(2 - 2 / e) / (R * (2 + 1 / e)) = 2 * (e - 1) / (R * (2 * e + 1))"
proof -
  have n: "2 - 2 / e = (2 * (e - 1)) / e"
    using assms by (simp add: field_simps)
  have d: "R * (2 + 1 / e) = (R * (2 * e + 1)) / e"
    using assms by (simp add: field_simps)
  show ?thesis
    unfolding n d using assms by simp
qed

lemma epsRFInvrc3_init_limit:
  assumes "rc \<noteq> 0"
  shows "((\<lambda>e. epsRFInvrc3_init e rc) \<longlongrightarrow> 1 / rc ^ 3) at_top"
proof -
  have a: "((\<lambda>e::real. (2 - 2 / e) / ((rc * rc * rc) * (2 + 1 / e)))
              \<longlongrightarrow> (2 - 0) / ((rc * rc * rc) * (2 + 0))) at_top"
    by (intro tendsto_intros tendsto_divide_0[OF tendsto_const]
          filterlim_at_top_imp_at_infinity filterlim_ident) (use assms in auto)
  have ev: "eventually (\<lambda>e::real. (2 - 2 / e) / ((rc * rc * rc) * (2 + 1 / e))
              = epsRFInvrc3_init e rc) at_top"
    using eventually_gt_at_top[of "0::real"]
    by eventually_elim (simp only: epsRFInvrc3_init_def epsRF_rescale)
  have "(2 - 0) / ((rc * rc * rc) * (2 + 0)) = 1 / rc ^ 3"
    by (simp add: power3_eq_cube)
  with a ev show ?thesis
    using Lim_transform_eventually by metis
qed

text \<open>
  Claim C5.  The prefactor \<^verbatim>\<open>_epsRFInvrc3\<close> that the constructor stores, and that
  \<open>dipole_dipole_pair\<close> hands to the dipole-dipole routine, equals
  \<open>2 (\<epsilon>\<^sub>R\<^sub>F - 1) / ((2 \<epsilon>\<^sub>R\<^sub>F + 1) r\<^sub>c\<^sup>3)\<close>; for a positive cutoff radius it tends to
  \<open>1 / r\<^sub>c\<^sup>3\<close> as the permittivity grows without bound.
\<close>

theorem reaction_field_prefactor:
  "epsRFInvrc3 (VectorizedCellProcessor_init eRF rc ljrc es sh)
      = 2 * (eRF - 1) / ((2 * eRF + 1) * rc ^ 3)
   \<and> (0 < rc \<longrightarrow>
        ((\<lambda>e. epsRFInvrc3 (VectorizedCellProcessor_init e rc ljrc es sh))
             \<longlongrightarrow> 1 / rc ^ 3) at_top)"
proof
  show "epsRFInvrc3 (VectorizedCellProcessor_init eRF rc ljrc es sh)
      = 2 * (eRF - 1) / ((2 * eRF + 1) * rc ^ 3)"
    by (simp add: VectorizedCellProcessor_init_def epsRFInvrc3_init_def power3_eq_cube mult.commute)
next
  show "0 < rc \<longrightarrow>
        ((\<lambda>e. epsRFInvrc3 (VectorizedCellProcessor_init e rc ljrc es sh))
             \<longlongrightarrow> 1 / rc ^ 3) at_top"
    using epsRFInvrc3_init_limit[of rc] by (simp add: VectorizedCellProcessor_init_def)
qed

theorem reaction_field_prefactor_witness:
  "epsRFInvrc3 (VectorizedCellProcessor_init 3 2 2 [] []) = 1 / 14
   \<and> (0::real) < 2
   \<and> ((\<lambda>e. epsRFInvrc3 (VectorizedCellProcessor_init e 2 2 [] [])) \<longlongrightarrow> 1 / 8) at_top"
  using reaction_field_prefactor[of 3 2 2 "[]" "[]"] by simp


section \<open>The Lennard-Jones routine\<close>

lemma lj_scale_algebra:
  fixes e24 s2 rr :: real
  assumes "rr \<noteq> 0"
  shows "e24 * (1 / rr)
           * ((s2 * (1 / rr) * (s2 * (1 / rr)) * (s2 * (1 / rr)))
                * (s2 * (1 / rr) * (s2 * (1 / rr)) * (s2 * (1 / rr)))
              + ((s2 * (1 / rr) * (s2 * (1 / rr)) * (s2 * (1 / rr)))
                   * (s2 * (1 / rr) * (s2 * (1 / rr)) * (s2 * (1 / rr)))
                 - s2 * (1 / rr) * (s2 * (1 / rr)) * (s2 * (1 / rr))))
         = spec_LJ_scale e24 s2 rr"
  by (simp add: spec_LJ_scale_def Let_def power2_eq_square power3_eq_cube algebra_simps)

lemma lj_upot_algebra:
  fixes e24 s2 rr sh :: real
  shows "e24 * ((s2 * (1 / rr) * (s2 * (1 / rr)) * (s2 * (1 / rr)))
                  * (s2 * (1 / rr) * (s2 * (1 / rr)) * (s2 * (1 / rr)))
                - s2 * (1 / rr) * (s2 * (1 / rr)) * (s2 * (1 / rr))) + sh
         = spec_LJ_upot6 e24 s2 sh rr"
  by (simp add: spec_LJ_upot6_def Let_def power2_eq_square power3_eq_cube algebra_simps)

lemma loopBodyLJ_unmasked:
  assumes "forceMask \<noteq> 0"
  shows "loopBodyLJ macro m1 r1 m2 r2 su sv forceMask e24 s2 sh =
     (let d = v3sub r1 r2;
          rr = norm2 d;
          scale = e24 * (1 / rr)
           * ((s2 * (1 / rr) * (s2 * (1 / rr)) * (s2 * (1 / rr)))
                * (s2 * (1 / rr) * (s2 * (1 / rr)) * (s2 * (1 / rr)))
              + ((s2 * (1 / rr) * (s2 * (1 / rr)) * (s2 * (1 / rr)))
                   * (s2 * (1 / rr) * (s2 * (1 / rr)) * (s2 * (1 / rr)))
                 - s2 * (1 / rr) * (s2 * (1 / rr)) * (s2 * (1 / rr))));
          f = v3scale scale d
      in if macro then
           (f, su + (e24 * ((s2 * (1 / rr) * (s2 * (1 / rr)) * (s2 * (1 / rr)))
                  * (s2 * (1 / rr) * (s2 * (1 / rr)) * (s2 * (1 / rr)))
                - s2 * (1 / rr) * (s2 * (1 / rr)) * (s2 * (1 / rr))) + sh),
            sv + vcp_simd_scalProd (vx m1 - vx m2) (vy m1 - vy m2) (vz m1 - vz m2) (vx f) (vy f) (vz f))
         else (f, su, sv))"
  using assms
  by (simp add: loopBodyLJ_def Let_def vcp_simd_scalProd_def vcp_simd_applymask_def
        vcp_simd_fma_def norm2_def v3sub_def v3scale_def)

lemma loopBodyLJ_masked:
  "loopBodyLJ macro m1 r1 m2 r2 su sv 0 e24 s2 sh = ((0, 0, 0), su, sv)"
  by (simp add: loopBodyLJ_def Let_def vcp_simd_scalProd_def vcp_simd_applymask_def
        vcp_simd_fma_def)

text \<open>
  Claim C2.  On an unmasked lane with separation vector \<open>d = r\<^sub>1 - r\<^sub>2\<close> of squared
  length \<open>r\<^sup>2 > 0\<close>, the force the Lennard-Jones routine writes is \<open>d\<close> scaled by
  \<open>(\<epsilon>\<cdot>24 / r\<^sup>2) (2 s\<^sup>1\<^sup>2 - s\<^sup>6)\<close>, and with macroscopic accumulation the running
  \<open>6\<cdot>U\<close> sum grows by \<open>(\<epsilon>\<cdot>24) (s\<^sup>1\<^sup>2 - s\<^sup>6) + shift\<cdot>6\<close>.  The energy term is masked
  before it is added: on a masked lane the sum stays as it was.  Without
  macroscopic accumulation both running sums stay as they were.
\<close>

theorem loopBodyLJ_force_and_energy:
  assumes "forceMask \<noteq> 0"
      and "0 < norm2 (v3sub r1 r2)"
  shows "fst (loopBodyLJ macro m1 r1 m2 r2 su sv forceMask e24 s2 sh)
           = v3scale (spec_LJ_scale e24 s2 (norm2 (v3sub r1 r2))) (v3sub r1 r2)
         \<and> fst (snd (loopBodyLJ True m1 r1 m2 r2 su sv forceMask e24 s2 sh))
           = su + spec_LJ_upot6 e24 s2 sh (norm2 (v3sub r1 r2))
         \<and> fst (snd (loopBodyLJ True m1 r1 m2 r2 su sv 0 e24 s2 sh)) = su
         \<and> snd (loopBodyLJ False m1 r1 m2 r2 su sv forceMask e24 s2 sh) = (su, sv)"
proof -
  have nz: "norm2 (v3sub r1 r2) \<noteq> 0"
    using assms(2) by simp
  have a: "fst (loopBodyLJ macro m1 r1 m2 r2 su sv forceMask e24 s2 sh)
      = v3scale (e24 * (1 / norm2 (v3sub r1 r2))
           * ((s2 * (1 / norm2 (v3sub r1 r2)) * (s2 * (1 / norm2 (v3sub r1 r2))) * (s2 * (1 / norm2 (v3sub r1 r2))))
                * (s2 * (1 / norm2 (v3sub r1 r2)) * (s2 * (1 / norm2 (v3sub r1 r2))) * (s2 * (1 / norm2 (v3sub r1 r2))))
              + ((s2 * (1 / norm2 (v3sub r1 r2)) * (s2 * (1 / norm2 (v3sub r1 r2))) * (s2 * (1 / norm2 (v3sub r1 r2))))
                   * (s2 * (1 / norm2 (v3sub r1 r2)) * (s2 * (1 / norm2 (v3sub r1 r2))) * (s2 * (1 / norm2 (v3sub r1 r2))))
                 - s2 * (1 / norm2 (v3sub r1 r2)) * (s2 * (1 / norm2 (v3sub r1 r2))) * (s2 * (1 / norm2 (v3sub r1 r2))))))
          (v3sub r1 r2)"
    by (simp add: loopBodyLJ_unmasked[OF assms(1)] Let_def)
  have b: "fst (snd (loopBodyLJ True m1 r1 m2 r2 su sv forceMask e24 s2 sh))
      = su + (e24 * ((s2 * (1 / norm2 (v3sub r1 r2)) * (s2 * (1 / norm2 (v3sub r1 r2))) * (s2 * (1 / norm2 (v3sub r1 r2))))
                  * (s2 * (1 / norm2 (v3sub r1 r2)) * (s2 * (1 / norm2 (v3sub r1 r2))) * (s2 * (1 / norm2 (v3sub r1 r2))))
                - s2 * (1 / norm2 (v3sub r1 r2)) * (s2 * (1 / norm2 (v3sub r1 r2))) * (s2 * (1 / norm2 (v3sub r1 r2)))) + sh)"
    by (simp add: loopBodyLJ_unmasked[OF assms(1)] Let_def)
  have c: "fst (snd (loopBodyLJ True m1 r1 m2 r2 su sv 0 e24 s2 sh)) = su"
    by (simp add: loopBodyLJ_masked)
  have d: "snd (loopBodyLJ False m1 r1 m2 r2 su sv forceMask e24 s2 sh) = (su, sv)"
    by (simp add: loopBodyLJ_unmasked[OF assms(1)] Let_def)
  from a b c d show ?thesis
    by (simp only: lj_scale_algebra[OF nz] lj_upot_algebra simp_thms)
qed

theorem loopBodyLJ_force_and_energy_witness:
  "(NOT 0 :: vcp_mask) \<noteq> 0
   \<and> 0 < norm2 (v3sub (2, 0, 0) (0, 0, 0))
   \<and> fst (loopBodyLJ True (2, 0, 0) (2, 0, 0) (0, 0, 0) (0, 0, 0) 0 0 (NOT 0) 24 4 5) = (12, 0, 0)
   \<and> fst (snd (loopBodyLJ True (2, 0, 0) (2, 0, 0) (0, 0, 0) (0, 0, 0) 0 0 (NOT 0) 24 4 5)) = 5"
  using loopBodyLJ_force_and_energy[of "NOT 0" "(2, 0, 0)" "(0, 0, 0)" True "(2, 0, 0)" "(0, 0, 0)"
          0 0 24 4 5]
  by (simp add: norm2_def v3sub_def v3scale_def spec_LJ_scale_def spec_LJ_upot6_def Let_def)


section \<open>The distance lookup\<close>






section \<open>Early returns of the traversal entry points\<close>

text \<open>
  Claim C9.  For a cell that is a halo cell or whose SoA holds fewer than two
  molecules, \<^verbatim>\<open>processCell\<close> returns the state it was given: no force or torque
  array, no accumulator of the processor is changed and no kernel is invoked.
\<close>

theorem processCell_noop:
  assumes "cellDataSoA (cells st a) = Some p"
      and "isHaloCell (cells st a) \<or> mol_num (soa_heap st p) < 2"
  shows "processCell a st = Inr st"
  using assms by (auto simp add: processCell_def Let_def)

theorem processCell_noop_witness:
  "cellDataSoA (cells (machine_example (soa_lj1 (0, 0, 0)) soa_empty False False) 0) = Some 0
   \<and> (isHaloCell (cells (machine_example (soa_lj1 (0, 0, 0)) soa_empty False False) 0)
        \<or> mol_num (soa_heap (machine_example (soa_lj1 (0, 0, 0)) soa_empty False False) 0) < 2)
   \<and> processCell 0 (machine_example (soa_lj1 (0, 0, 0)) soa_empty False False)
        = Inr (machine_example (soa_lj1 (0, 0, 0)) soa_empty False False)"
  using processCell_noop[of "machine_example (soa_lj1 (0, 0, 0)) soa_empty False False" 0 0]
  by (simp add: machine_example_def soa_lj1_def soa_empty_def)

text \<open>
  Claim C10.  For two distinct cells of which at least one holds no molecule in its
  SoA, \<^verbatim>\<open>processCellPair\<close> returns the state it was given, whatever the halo flags
  of the two cells are.
\<close>

theorem processCellPair_empty_noop:
  assumes "a1 \<noteq> a2"
      and "cellDataSoA (cells st a1) = Some p1"
      and "cellDataSoA (cells st a2) = Some p2"
      and "mol_num (soa_heap st p1) = 0 \<or> mol_num (soa_heap st p2) = 0"
  shows "processCellPair a1 a2 st = Inr st"
  using assms by (auto simp add: processCellPair_def Let_def)

theorem processCellPair_empty_noop_witness:
  "(0::nat) \<noteq> 1
   \<and> cellDataSoA (cells (machine_example soa_empty (soa_lj1 (0, 0, 0)) True False) 0) = Some 0
   \<and> cellDataSoA (cells (machine_example soa_empty (soa_lj1 (0, 0, 0)) True False) 1) = Some 1
   \<and> (mol_num (soa_heap (machine_example soa_empty (soa_lj1 (0, 0, 0)) True False) 0) = 0
        \<or> mol_num (soa_heap (machine_example soa_empty (soa_lj1 (0, 0, 0)) True False) 1) = 0)
   \<and> processCellPair 0 1 (machine_example soa_empty (soa_lj1 (0, 0, 0)) True False)
        = Inr (machine_example soa_empty (soa_lj1 (0, 0, 0)) True False)"
  using processCellPair_empty_noop
          [of 0 1 "machine_example soa_empty (soa_lj1 (0, 0, 0)) True False" 0 1]
  by (simp add: machine_example_def soa_lj1_def soa_empty_def)


section \<open>Deadlock detection and duplicate removal in the one-stage exchange\<close>

lemma fold_covers: "fold (\<lambda>d r. r \<and> cov d) [0 ..< 3] f = (f \<and> cov 0 \<and> cov 1 \<and> cov 2)"
  by (auto simp add: upt_rec numeral_3_eq_3 numeral_2_eq_2)

lemma iteration_TestRecv:
  "TestRecv i b \<in> set (it_events (finalize_iteration rank nbs f t0 c ob)) \<Longrightarrow> b = f"
  by (auto simp add: finalize_iteration_def Let_def deadlockDiagnostics_def)

lemma loop_TestRecv:
  "TestRecv i b \<in> set (snd (finalize_loop rank nbs f t0 c obs)) \<Longrightarrow> b = f"
proof (induction obs arbitrary: c)
  case Nil
  then show ?case by simp
next
  case (Cons ob obs)
  then show ?case
    by (auto simp add: Let_def split: option.splits if_splits dest: iteration_TestRecv)
qed

lemma iteration_calls_TestRecv:
  "i \<in> set (other_ranks rank nbs) \<Longrightarrow>
     TestRecv i f \<in> set (it_events (finalize_iteration rank nbs f t0 c ob))"
  by (auto simp add: finalize_iteration_def Let_def)

lemma loop_calls_TestRecv:
  "obs \<noteq> [] \<Longrightarrow> i \<in> set (other_ranks rank nbs) \<Longrightarrow>
     TestRecv i f \<in> set (snd (finalize_loop rank nbs f t0 c obs))"
  by (cases obs) (auto simp add: Let_def iteration_calls_TestRecv split: option.splits)

text \<open>
  Claim C8, amended.  In the one-stage finalize loop every call of \<^verbatim>\<open>testRecv\<close>
  (the call that unpacks the received molecules into the container) is made with
  the duplicate-removal flag equal to the caller's \<^verbatim>\<open>removeRecvDuplicates\<close> and-ed
  with \<^verbatim>\<open>_coversWholeDomain[d]\<close> for all three dimensions \<open>d\<close>; and as soon as the
  loop runs, every neighbour on another rank is called with that flag.  Duplicates
  are therefore removed only when the subdomain covers the whole domain in every
  dimension and the caller asked for it.
\<close>

theorem duplicate_removal_flag:
  "(TestRecv i b \<in> set (snd (finalizeExchangeMoleculesMPI rank nbs cov f t0 obs))
      \<longrightarrow> b = (f \<and> cov 0 \<and> cov 1 \<and> cov 2))
   \<and> (obs \<noteq> [] \<and> i \<in> set (other_ranks rank nbs)
      \<longrightarrow> TestRecv i (f \<and> cov 0 \<and> cov 1 \<and> cov 2)
            \<in> set (snd (finalizeExchangeMoleculesMPI rank nbs cov f t0 obs)))"
  using loop_TestRecv[of i b rank nbs "f \<and> cov 0 \<and> cov 1 \<and> cov 2" t0 1 obs]
        loop_calls_TestRecv[of obs i rank nbs "f \<and> cov 0 \<and> cov 1 \<and> cov 2" t0 1]
  by (simp add: finalizeExchangeMoleculesMPI_def fold_covers Let_def)

text \<open>
  Claim C8, as stated, fails: a subdomain that covers the whole domain in dimension
  \<open>0\<close> only, with the caller asking for duplicate removal, unpacks the message of
  its neighbour with the flag off.
\<close>

theorem duplicate_removal_counterexample:
  "snd (finalizeExchangeMoleculesMPI 0 [1] (\<lambda>d. d = 0) True 0 [ob_at True 0])
     = [TestSend 0, IprobeCount 0, TestRecv 0 False]"
  by (simp add: finalizeExchangeMoleculesMPI_def fold_covers finalize_iteration_def Let_def
        other_ranks_def allDone_of_def ob_at_def deadlockTimeOut_def)

theorem duplicate_removal_flag_witness:
  "TestRecv 0 True \<in> set (snd (finalizeExchangeMoleculesMPI 0 [1] (\<lambda>d. True) True 0 [ob_at True 0]))
   \<and> True = (True \<and> True \<and> True \<and> True)
   \<and> [ob_at True 0] \<noteq> [] \<and> 0 \<in> set (other_ranks 0 [1])"
  using duplicate_removal_flag[of 0 True 0 "[1]" "\<lambda>d. True" True 0 "[ob_at True 0]"]
  by (simp add: other_ranks_def)




lemma iteration_events:
  "it_events (finalize_iteration rank nbs f t0 c ob)
     = (map TestSend (other_ranks rank nbs) @ map IprobeCount (other_ranks rank nbs)
          @ map (\<lambda>i. TestRecv i f) (other_ranks rank nbs))
       @ (if ob_wtime ob - t0 > c then DeadlockWarning c # deadlockDiagnostics rank nbs else [])
       @ (if ob_wtime ob - t0 > 60 then DeadlockError 60 # deadlockDiagnostics rank nbs else [])"
  by (simp add: finalize_iteration_def Let_def deadlockTimeOut_def)


lemma iteration_warning_block:
  assumes "ob_wtime ob - t0 > c"
  shows "\<exists>evs evs'. it_events (finalize_iteration rank nbs f t0 c ob)
             = evs @ DeadlockWarning c # deadlockDiagnostics rank nbs @ evs'"
proof -
  have "it_events (finalize_iteration rank nbs f t0 c ob)
     = (map TestSend (other_ranks rank nbs) @ map IprobeCount (other_ranks rank nbs)
          @ map (\<lambda>i. TestRecv i f) (other_ranks rank nbs))
       @ DeadlockWarning c # deadlockDiagnostics rank nbs
       @ (if ob_wtime ob - t0 > 60 then DeadlockError 60 # deadlockDiagnostics rank nbs else [])"
    using assms by (simp add: iteration_events)
  then show ?thesis by blast
qed

lemma warning_thresholds_Nil [simp]: "warning_thresholds [] = []"
  by (simp add: warning_thresholds_def List.map_filter_def)


lemma warning_thresholds_map [simp]:
  "warning_thresholds (map TestSend ns) = []"
  "warning_thresholds (map IprobeCount ns) = []"
  "warning_thresholds (map (\<lambda>i. TestRecv i f) ns) = []"
  "warning_thresholds (map DeadlockDiagnostic ns) = []"
  by (simp_all add: warning_thresholds_def List.map_filter_def comp_def)

lemma warning_thresholds_Cons [simp]:
  "warning_thresholds (DeadlockWarning c # es) = c # warning_thresholds es"
  "warning_thresholds (DeadlockError c # es) = warning_thresholds es"
  by (simp_all add: warning_thresholds_def List.map_filter_def)








lemma no_warning_in_map:
  "DeadlockWarning c \<notin> set (map TestSend ns)"
  "DeadlockWarning c \<notin> set (map IprobeCount ns)"
  "DeadlockWarning c \<notin> set (map (\<lambda>i. TestRecv i f) ns)"
  "DeadlockWarning c \<notin> set (map DeadlockDiagnostic ns)"
  by auto











section \<open>Exit code of the mirror plug-in\<close>

text \<open>
  Claim C7, as stated, fails: with the Meland2004 parameters missing, both versions
  of \<^verbatim>\<open>readXML\<close> end the program with the code \<open>-2004\<close>, which is not \<open>2004\<close>.
\<close>

theorem Mirror_exit_2004_counterexample:
  "Mirror_readXML xml_meland_incomplete False mirror_initial = Inl (- 2004)
   \<and> Mirror_readXML xml_meland_incomplete False mirror_initial \<noteq> Inl 2004
   \<and> Mirror_readXML_old xml_old_meland_incomplete True True 0 mirror_old_initial = Inl (- 2004)
   \<and> Mirror_readXML_old xml_old_meland_incomplete True True 0 mirror_old_initial \<noteq> Inl 2004"
  by (simp add: Mirror_readXML_def Mirror_readXML_old_def xml_meland_incomplete_def
        xml_old_meland_incomplete_def mirror_initial_def mirror_old_initial_def)

lemma Mirror_readXML_codes:
  "Mirror_readXML xml sf m0 = Inl c \<Longrightarrow> c = - 1 \<or> c = - 2004"
  by (auto simp add: Mirror_readXML_def Let_def split: if_splits option.splits)

lemma Mirror_readXML_old_codes:
  "Mirror_readXML_old xo a b n mo = Inl c \<Longrightarrow> c = - 1 \<or> c = - 2004"
  by (auto simp add: Mirror_readXML_old_def readNormDistr_def Let_def split: if_splits option.splits)

text \<open>
  Claim C7, amended.  \<^verbatim>\<open>Mirror::readXML\<close> ends the program through
  \<^verbatim>\<open>Simulation::exit(-2004)\<close> exactly when the mirror type is Meland2004 and its
  parameters are incomplete: the target velocity is missing (current version, once
  the earlier check of the position reference has passed), or the probability
  switch or the target velocity is missing (older version).  The code passed is
  \<open>-2004\<close>; no configuration makes either version exit with \<open>2004\<close>.
\<close>

theorem Mirror_meland_exit:
  "(Mirror_readXML xml sf m0 = Inl (- 2004)
      \<longleftrightarrow> xml_type xml = MT_MELAND_2004 \<and> xml_meland_velo_target xml = None
          \<and> (sf \<or> (case xml_position_refID xml of None \<Rightarrow> 0 | Some v \<Rightarrow> v) mod 65536 = 0))
   \<and> (Mirror_readXML_old xo a b n mo = Inl (- 2004)
      \<longleftrightarrow> xo_type xo = MT_MELAND_2004
          \<and> (xo_meland_use_probability xo = None \<or> xo_meland_velo_target xo = None))
   \<and> Mirror_readXML xml sf m0 \<noteq> Inl 2004
   \<and> Mirror_readXML_old xo a b n mo \<noteq> Inl 2004"
proof (intro conjI)
  show "Mirror_readXML xml sf m0 = Inl (- 2004)
      \<longleftrightarrow> xml_type xml = MT_MELAND_2004 \<and> xml_meland_velo_target xml = None
          \<and> (sf \<or> (case xml_position_refID xml of None \<Rightarrow> 0 | Some v \<Rightarrow> v) mod 65536 = 0)"
    by (auto simp add: Mirror_readXML_def Let_def split: if_splits option.splits)
  show "Mirror_readXML_old xo a b n mo = Inl (- 2004)
      \<longleftrightarrow> xo_type xo = MT_MELAND_2004
          \<and> (xo_meland_use_probability xo = None \<or> xo_meland_velo_target xo = None)"
    by (auto simp add: Mirror_readXML_old_def readNormDistr_def Let_def split: if_splits option.splits)
  show "Mirror_readXML xml sf m0 \<noteq> Inl 2004"
    using Mirror_readXML_codes[of xml sf m0 2004] by auto
  show "Mirror_readXML_old xo a b n mo \<noteq> Inl 2004"
    using Mirror_readXML_old_codes[of xo a b n mo 2004] by auto
qed

theorem Mirror_meland_exit_witness:
  "xml_type xml_meland_incomplete = MT_MELAND_2004
   \<and> xml_meland_velo_target xml_meland_incomplete = None
   \<and> Mirror_readXML xml_meland_incomplete True mirror_initial = Inl (- 2004)
   \<and> xo_type xml_old_meland_incomplete = MT_MELAND_2004
   \<and> xo_meland_velo_target xml_old_meland_incomplete = None
   \<and> Mirror_readXML_old xml_old_meland_incomplete True True 0 mirror_old_initial = Inl (- 2004)"
  using Mirror_meland_exit[of xml_meland_incomplete True mirror_initial
          xml_old_meland_incomplete True True 0 mirror_old_initial]
  by (simp add: xml_meland_incomplete_def xml_old_meland_incomplete_def)


section \<open>Newton's third law in the pair loops\<close>

lemma v3sum_simps [simp]:
  "v3sum [] = VCP_SIMD_ZEROV3"
  "v3sum (v # vs) = v3add v (v3sum vs)"
  by (simp_all add: v3sum_def)









































section \<open>Macroscopic accumulation and the forces\<close>

text \<open>
  With \<^verbatim>\<open>calculateMacroscopic = false\<close> every pair routine returns the same forces and
  torques and hands back the accumulators it was given.
\<close>

lemma loopBodyLJ_out:
  "loopBodyLJ False m1 r1 m2 r2 su sv fm e24 s2 sh = (outputs_LJ m1 r1 m2 r2 fm e24 s2 sh, su, sv)"
  "fst (loopBodyLJ True m1 r1 m2 r2 su sv fm e24 s2 sh) = outputs_LJ m1 r1 m2 r2 fm e24 s2 sh"
  by (simp_all only: outputs_LJ_def loopBodyLJ_def Let_def fst_conv snd_conv if_True if_False)

lemma loopBodyCharge_out:
  "loopBodyCharge False m1 r1 q1 m2 r2 q2 su sv fm = (outputs_Charge m1 r1 q1 m2 r2 q2 fm, su, sv)"
  "fst (loopBodyCharge True m1 r1 q1 m2 r2 q2 su sv fm) = outputs_Charge m1 r1 q1 m2 r2 q2 fm"
  by (simp_all only: outputs_Charge_def loopBodyCharge_def Let_def fst_conv snd_conv if_True if_False)

lemma loopBodyChargeDipole_out:
  "loopBodyChargeDipole False m1 r1 q m2 r2 e p su sv fm sw
     = (fst (outputs_ChargeDipole m1 r1 q m2 r2 e p fm sw),
        snd (outputs_ChargeDipole m1 r1 q m2 r2 e p fm sw), su, sv)"
  "fst (loopBodyChargeDipole True m1 r1 q m2 r2 e p su sv fm sw)
     = fst (outputs_ChargeDipole m1 r1 q m2 r2 e p fm sw)"
  "fst (snd (loopBodyChargeDipole True m1 r1 q m2 r2 e p su sv fm sw))
     = snd (outputs_ChargeDipole m1 r1 q m2 r2 e p fm sw)"
  by (simp_all only: outputs_ChargeDipole_def loopBodyChargeDipole_def Let_def fst_conv snd_conv
        if_True if_False)

lemma loopBodyChargeQuadrupole_out:
  "loopBodyChargeQuadrupole False m1 r1 q m2 r2 e m su sv fm sw
     = (fst (outputs_ChargeQuadrupole m1 r1 q m2 r2 e m fm sw),
        snd (outputs_ChargeQuadrupole m1 r1 q m2 r2 e m fm sw), su, sv)"
  "fst (loopBodyChargeQuadrupole True m1 r1 q m2 r2 e m su sv fm sw)
     = fst (outputs_ChargeQuadrupole m1 r1 q m2 r2 e m fm sw)"
  "fst (snd (loopBodyChargeQuadrupole True m1 r1 q m2 r2 e m su sv fm sw))
     = snd (outputs_ChargeQuadrupole m1 r1 q m2 r2 e m fm sw)"
  by (simp_all only: outputs_ChargeQuadrupole_def loopBodyChargeQuadrupole_def Let_def fst_conv
        snd_conv if_True if_False)

lemma loopBodyDipole_out:
  "loopBodyDipole False m1 r1 e1 q1 m2 r2 e2 q2 su sv srf fm rf
     = (fst (outputs_Dipole m1 r1 e1 q1 m2 r2 e2 q2 fm rf),
        fst (snd (outputs_Dipole m1 r1 e1 q1 m2 r2 e2 q2 fm rf)),
        snd (snd (outputs_Dipole m1 r1 e1 q1 m2 r2 e2 q2 fm rf)), su, sv, srf)"
  "fst (loopBodyDipole True m1 r1 e1 q1 m2 r2 e2 q2 su sv srf fm rf)
     = fst (outputs_Dipole m1 r1 e1 q1 m2 r2 e2 q2 fm rf)"
  "fst (snd (loopBodyDipole True m1 r1 e1 q1 m2 r2 e2 q2 su sv srf fm rf))
     = fst (snd (outputs_Dipole m1 r1 e1 q1 m2 r2 e2 q2 fm rf))"
  "fst (snd (snd (loopBodyDipole True m1 r1 e1 q1 m2 r2 e2 q2 su sv srf fm rf)))
     = snd (snd (outputs_Dipole m1 r1 e1 q1 m2 r2 e2 q2 fm rf))"
  by (simp_all only: outputs_Dipole_def loopBodyDipole_def Let_def fst_conv snd_conv
        if_True if_False)

lemma loopBodyDipoleQuadrupole_out:
  "loopBodyDipoleQuadrupole False m1 r1 e1 q1 m2 r2 e2 q2 su sv fm sw
     = (fst (outputs_DipoleQuadrupole m1 r1 e1 q1 m2 r2 e2 q2 fm sw),
        fst (snd (outputs_DipoleQuadrupole m1 r1 e1 q1 m2 r2 e2 q2 fm sw)),
        snd (snd (outputs_DipoleQuadrupole m1 r1 e1 q1 m2 r2 e2 q2 fm sw)), su, sv)"
  "fst (loopBodyDipoleQuadrupole True m1 r1 e1 q1 m2 r2 e2 q2 su sv fm sw)
     = fst (outputs_DipoleQuadrupole m1 r1 e1 q1 m2 r2 e2 q2 fm sw)"
  "fst (snd (loopBodyDipoleQuadrupole True m1 r1 e1 q1 m2 r2 e2 q2 su sv fm sw))
     = fst (snd (outputs_DipoleQuadrupole m1 r1 e1 q1 m2 r2 e2 q2 fm sw))"
  "fst (snd (snd (loopBodyDipoleQuadrupole True m1 r1 e1 q1 m2 r2 e2 q2 su sv fm sw)))
     = snd (snd (outputs_DipoleQuadrupole m1 r1 e1 q1 m2 r2 e2 q2 fm sw))"
  by (simp_all only: outputs_DipoleQuadrupole_def loopBodyDipoleQuadrupole_def Let_def fst_conv
        snd_conv if_True if_False)

lemma loopBodyQuadrupole_out:
  "loopBodyQuadrupole False m1 r1 e1 q1 m2 r2 e2 q2 su sv fm
     = (fst (outputs_Quadrupole m1 r1 e1 q1 m2 r2 e2 q2 fm),
        fst (snd (outputs_Quadrupole m1 r1 e1 q1 m2 r2 e2 q2 fm)),
        snd (snd (outputs_Quadrupole m1 r1 e1 q1 m2 r2 e2 q2 fm)), su, sv)"
  "fst (loopBodyQuadrupole True m1 r1 e1 q1 m2 r2 e2 q2 su sv fm)
     = fst (outputs_Quadrupole m1 r1 e1 q1 m2 r2 e2 q2 fm)"
  "fst (snd (loopBodyQuadrupole True m1 r1 e1 q1 m2 r2 e2 q2 su sv fm))
     = fst (snd (outputs_Quadrupole m1 r1 e1 q1 m2 r2 e2 q2 fm))"
  "fst (snd (snd (loopBodyQuadrupole True m1 r1 e1 q1 m2 r2 e2 q2 su sv fm)))
     = snd (snd (outputs_Quadrupole m1 r1 e1 q1 m2 r2 e2 q2 fm))"
  by (simp_all only: outputs_Quadrupole_def loopBodyQuadrupole_def Let_def fst_conv snd_conv
        if_True if_False)

text \<open>
  Hence a run of the kernel without macroscopic accumulation is the run with it,
  with the four sums cleared: first for one pair step, then for the loops.
\<close>

lemma soas_clear_sums [simp]: "soas (clear_sums cs) = soas cs"
  by (simp add: clear_sums_def)

lemma clear_sums_upd_soa [simp]: "upd_soa p g (clear_sums cs) = clear_sums (upd_soa p g cs)"
  by (simp add: clear_sums_def upd_soa_def)

lemma upd_soa_sum_updates [simp]:
  "upd_soa p g (cs\<lparr>sum_upot6lj := a\<rparr>) = (upd_soa p g cs)\<lparr>sum_upot6lj := a\<rparr>"
  "upd_soa p g (cs\<lparr>sum_upotXpoles := a\<rparr>) = (upd_soa p g cs)\<lparr>sum_upotXpoles := a\<rparr>"
  "upd_soa p g (cs\<lparr>sum_virial := a\<rparr>) = (upd_soa p g cs)\<lparr>sum_virial := a\<rparr>"
  "upd_soa p g (cs\<lparr>sum_myRF := a\<rparr>) = (upd_soa p g cs)\<lparr>sum_myRF := a\<rparr>"
  by (simp_all add: upd_soa_def)

lemma clear_sums_idem [simp]: "clear_sums (clear_sums cs) = clear_sums cs"
  by (simp add: clear_sums_def)

lemma clear_sums_updates [simp]:
  "clear_sums (cs\<lparr>sum_upot6lj := a\<rparr>) = clear_sums cs"
  "clear_sums (cs\<lparr>sum_upotXpoles := a\<rparr>) = clear_sums cs"
  "clear_sums (cs\<lparr>sum_virial := a\<rparr>) = clear_sums cs"
  "clear_sums (cs\<lparr>sum_myRF := a\<rparr>) = clear_sums cs"
  by (simp_all add: clear_sums_def)

lemma clear_sums_fields [simp]:
  "sum_upot6lj (clear_sums cs) = 0"
  "sum_upotXpoles (clear_sums cs) = 0"
  "sum_virial (clear_sums cs) = 0"
  "sum_myRF (clear_sums cs) = 0"
  "i_ljc_idx (clear_sums cs) = i_ljc_idx cs"
  "i_charge_idx (clear_sums cs) = i_charge_idx cs"
  "i_charge_dipole_idx (clear_sums cs) = i_charge_dipole_idx cs"
  "i_charge_quadrupole_idx (clear_sums cs) = i_charge_quadrupole_idx cs"
  "i_dipole_charge_idx (clear_sums cs) = i_dipole_charge_idx cs"
  "i_dipole_idx (clear_sums cs) = i_dipole_idx cs"
  "i_dipole_quadrupole_idx (clear_sums cs) = i_dipole_quadrupole_idx cs"
  "i_quadrupole_charge_idx (clear_sums cs) = i_quadrupole_charge_idx cs"
  "i_quadrupole_dipole_idx (clear_sums cs) = i_quadrupole_dipole_idx cs"
  "i_quadrupole_idx (clear_sums cs) = i_quadrupole_idx cs"
  by (simp_all add: clear_sums_def)

lemma clear_sums_zero_updates [simp]:
  "(clear_sums cs)\<lparr>sum_upot6lj := 0\<rparr> = clear_sums cs"
  "(clear_sums cs)\<lparr>sum_upotXpoles := 0\<rparr> = clear_sums cs"
  "(clear_sums cs)\<lparr>sum_virial := 0\<rparr> = clear_sums cs"
  "(clear_sums cs)\<lparr>sum_myRF := 0\<rparr> = clear_sums cs"
  by (simp_all add: clear_sums_def)

lemma ljc_pair_macro:
  "ljc_pair False proc p1 p2 m1_r c_r1 idx j (apsnd clear_sums s)
     = apsnd clear_sums (ljc_pair True proc p1 p2 m1_r c_r1 idx j s)"
  by (cases s) (simp add: ljc_pair_def Let_def loopBodyLJ_out)

lemma charge_charge_pair_macro:
  "charge_charge_pair False p2 m1_r r1 q1 j (apsnd clear_sums s)
     = apsnd clear_sums (charge_charge_pair True p2 m1_r r1 q1 j s)"
  by (cases s) (simp add: charge_charge_pair_def Let_def loopBodyCharge_out)

lemma dipole_charge_pair_macro:
  "dipole_charge_pair False p2 m1_r r1 e p j (apsnd (apsnd clear_sums) s)
     = apsnd (apsnd clear_sums) (dipole_charge_pair True p2 m1_r r1 e p j s)"
  by (cases s rule: prod_cases3) (simp add: dipole_charge_pair_def Let_def loopBodyChargeDipole_out)

lemma quadrupole_charge_pair_macro:
  "quadrupole_charge_pair False p2 m1_r r1 e m j (apsnd (apsnd clear_sums) s)
     = apsnd (apsnd clear_sums) (quadrupole_charge_pair True p2 m1_r r1 e m j s)"
  by (cases s rule: prod_cases3) (simp add: quadrupole_charge_pair_def Let_def loopBodyChargeQuadrupole_out)

lemma dipole_dipole_pair_macro:
  "dipole_dipole_pair False proc p2 m1_r r1 e1 q1 j (apsnd (apsnd clear_sums) s)
     = apsnd (apsnd clear_sums) (dipole_dipole_pair True proc p2 m1_r r1 e1 q1 j s)"
  by (cases s rule: prod_cases3) (simp add: dipole_dipole_pair_def Let_def loopBodyDipole_out)

lemma charge_dipole_pair_macro:
  "charge_dipole_pair False p2 m1_r r1 q j (apsnd clear_sums s)
     = apsnd clear_sums (charge_dipole_pair True p2 m1_r r1 q j s)"
  by (cases s) (simp add: charge_dipole_pair_def Let_def loopBodyChargeDipole_out)

lemma quadrupole_dipole_pair_macro:
  "quadrupole_dipole_pair False p2 m1_r r1 e1 m j (apsnd (apsnd clear_sums) s)
     = apsnd (apsnd clear_sums) (quadrupole_dipole_pair True p2 m1_r r1 e1 m j s)"
  by (cases s rule: prod_cases3) (simp add: quadrupole_dipole_pair_def Let_def loopBodyDipoleQuadrupole_out)

lemma quadrupole_quadrupole_pair_macro:
  "quadrupole_quadrupole_pair False p2 m1_r r1 e1 q1 j (apsnd (apsnd clear_sums) s)
     = apsnd (apsnd clear_sums) (quadrupole_quadrupole_pair True p2 m1_r r1 e1 q1 j s)"
  by (cases s rule: prod_cases3) (simp add: quadrupole_quadrupole_pair_def Let_def loopBodyQuadrupole_out)

lemma charge_quadrupole_pair_macro:
  "charge_quadrupole_pair False p2 m1_r r1 q j (apsnd clear_sums s)
     = apsnd clear_sums (charge_quadrupole_pair True p2 m1_r r1 q j s)"
  by (cases s) (simp add: charge_quadrupole_pair_def Let_def loopBodyChargeQuadrupole_out)

lemma dipole_quadrupole_pair_macro:
  "dipole_quadrupole_pair False p2 m1_r r1 e1 q1 j (apsnd (apsnd clear_sums) s)
     = apsnd (apsnd clear_sums) (dipole_quadrupole_pair True p2 m1_r r1 e1 q1 j s)"
  by (cases s rule: prod_cases3) (simp add: dipole_quadrupole_pair_def Let_def loopBodyDipoleQuadrupole_out)

lemma fold_macro:
  assumes "\<And>x s. f x (h s) = h (g x s)"
  shows "fold f xs (h s) = h (fold g xs s)"
  by (induction xs arbitrary: s) (simp_all add: assms)

lemma ljc_fold_macro:
  "fold (ljc_pair False proc p1 p2 m1_r c_r1 idx) xs (a, clear_sums cs)
     = apsnd clear_sums (fold (ljc_pair True proc p1 p2 m1_r c_r1 idx) xs (a, cs))"
  using fold_macro[of "ljc_pair False proc p1 p2 m1_r c_r1 idx" "apsnd clear_sums"
          "ljc_pair True proc p1 p2 m1_r c_r1 idx" xs "(a, cs)"]
  by (simp add: ljc_pair_macro)

lemma charge_charge_fold_macro:
  "fold (charge_charge_pair False p2 m1_r r1 q1) xs (a, clear_sums cs)
     = apsnd clear_sums (fold (charge_charge_pair True p2 m1_r r1 q1) xs (a, cs))"
  using fold_macro[of "charge_charge_pair False p2 m1_r r1 q1" "apsnd clear_sums"
          "charge_charge_pair True p2 m1_r r1 q1" xs "(a, cs)"]
  by (simp add: charge_charge_pair_macro)

lemma dipole_charge_fold_macro:
  "fold (dipole_charge_pair False p2 m1_r r1 e p) xs (a, b, clear_sums cs)
     = apsnd (apsnd clear_sums) (fold (dipole_charge_pair True p2 m1_r r1 e p) xs (a, b, cs))"
  using fold_macro[of "dipole_charge_pair False p2 m1_r r1 e p" "apsnd (apsnd clear_sums)"
          "dipole_charge_pair True p2 m1_r r1 e p" xs "(a, b, cs)"]
  by (simp add: dipole_charge_pair_macro)

lemma quadrupole_charge_fold_macro:
  "fold (quadrupole_charge_pair False p2 m1_r r1 e m) xs (a, b, clear_sums cs)
     = apsnd (apsnd clear_sums) (fold (quadrupole_charge_pair True p2 m1_r r1 e m) xs (a, b, cs))"
  using fold_macro[of "quadrupole_charge_pair False p2 m1_r r1 e m" "apsnd (apsnd clear_sums)"
          "quadrupole_charge_pair True p2 m1_r r1 e m" xs "(a, b, cs)"]
  by (simp add: quadrupole_charge_pair_macro)

lemma dipole_dipole_fold_macro:
  "fold (dipole_dipole_pair False proc p2 m1_r r1 e1 q1) xs (a, b, clear_sums cs)
     = apsnd (apsnd clear_sums) (fold (dipole_dipole_pair True proc p2 m1_r r1 e1 q1) xs (a, b, cs))"
  using fold_macro[of "dipole_dipole_pair False proc p2 m1_r r1 e1 q1" "apsnd (apsnd clear_sums)"
          "dipole_dipole_pair True proc p2 m1_r r1 e1 q1" xs "(a, b, cs)"]
  by (simp add: dipole_dipole_pair_macro)

lemma charge_dipole_fold_macro:
  "fold (charge_dipole_pair False p2 m1_r r1 q) xs (a, clear_sums cs)
     = apsnd clear_sums (fold (charge_dipole_pair True p2 m1_r r1 q) xs (a, cs))"
  using fold_macro[of "charge_dipole_pair False p2 m1_r r1 q" "apsnd clear_sums"
          "charge_dipole_pair True p2 m1_r r1 q" xs "(a, cs)"]
  by (simp add: charge_dipole_pair_macro)

lemma quadrupole_dipole_fold_macro:
  "fold (quadrupole_dipole_pair False p2 m1_r r1 e1 m) xs (a, b, clear_sums cs)
     = apsnd (apsnd clear_sums) (fold (quadrupole_dipole_pair True p2 m1_r r1 e1 m) xs (a, b, cs))"
  using fold_macro[of "quadrupole_dipole_pair False p2 m1_r r1 e1 m" "apsnd (apsnd clear_sums)"
          "quadrupole_dipole_pair True p2 m1_r r1 e1 m" xs "(a, b, cs)"]
  by (simp add: quadrupole_dipole_pair_macro)

lemma quadrupole_quadrupole_fold_macro:
  "fold (quadrupole_quadrupole_pair False p2 m1_r r1 e1 q1) xs (a, b, clear_sums cs)
     = apsnd (apsnd clear_sums) (fold (quadrupole_quadrupole_pair True p2 m1_r r1 e1 q1) xs (a, b, cs))"
  using fold_macro[of "quadrupole_quadrupole_pair False p2 m1_r r1 e1 q1" "apsnd (apsnd clear_sums)"
          "quadrupole_quadrupole_pair True p2 m1_r r1 e1 q1" xs "(a, b, cs)"]
  by (simp add: quadrupole_quadrupole_pair_macro)

lemma charge_quadrupole_fold_macro:
  "fold (charge_quadrupole_pair False p2 m1_r r1 q) xs (a, clear_sums cs)
     = apsnd clear_sums (fold (charge_quadrupole_pair True p2 m1_r r1 q) xs (a, cs))"
  using fold_macro[of "charge_quadrupole_pair False p2 m1_r r1 q" "apsnd clear_sums"
          "charge_quadrupole_pair True p2 m1_r r1 q" xs "(a, cs)"]
  by (simp add: charge_quadrupole_pair_macro)

lemma dipole_quadrupole_fold_macro:
  "fold (dipole_quadrupole_pair False p2 m1_r r1 e1 q1) xs (a, b, clear_sums cs)
     = apsnd (apsnd clear_sums) (fold (dipole_quadrupole_pair True p2 m1_r r1 e1 q1) xs (a, b, cs))"
  using fold_macro[of "dipole_quadrupole_pair False p2 m1_r r1 e1 q1" "apsnd (apsnd clear_sums)"
          "dipole_quadrupole_pair True p2 m1_r r1 e1 q1" xs "(a, b, cs)"]
  by (simp add: dipole_quadrupole_pair_macro)

lemmas pair_fold_macro =
  ljc_fold_macro charge_charge_fold_macro dipole_charge_fold_macro quadrupole_charge_fold_macro
  dipole_dipole_fold_macro charge_dipole_fold_macro quadrupole_dipole_fold_macro
  quadrupole_quadrupole_fold_macro charge_quadrupole_fold_macro dipole_quadrupole_fold_macro

lemma clear_sums_idx_updates [simp]:
  "(clear_sums cs)\<lparr>i_ljc_idx := n\<rparr> = clear_sums (cs\<lparr>i_ljc_idx := n\<rparr>)"
  "(clear_sums cs)\<lparr>i_charge_idx := n\<rparr> = clear_sums (cs\<lparr>i_charge_idx := n\<rparr>)"
  "(clear_sums cs)\<lparr>i_charge_dipole_idx := n\<rparr> = clear_sums (cs\<lparr>i_charge_dipole_idx := n\<rparr>)"
  "(clear_sums cs)\<lparr>i_charge_quadrupole_idx := n\<rparr> = clear_sums (cs\<lparr>i_charge_quadrupole_idx := n\<rparr>)"
  "(clear_sums cs)\<lparr>i_dipole_charge_idx := n\<rparr> = clear_sums (cs\<lparr>i_dipole_charge_idx := n\<rparr>)"
  "(clear_sums cs)\<lparr>i_dipole_idx := n\<rparr> = clear_sums (cs\<lparr>i_dipole_idx := n\<rparr>)"
  "(clear_sums cs)\<lparr>i_dipole_quadrupole_idx := n\<rparr> = clear_sums (cs\<lparr>i_dipole_quadrupole_idx := n\<rparr>)"
  "(clear_sums cs)\<lparr>i_quadrupole_charge_idx := n\<rparr> = clear_sums (cs\<lparr>i_quadrupole_charge_idx := n\<rparr>)"
  "(clear_sums cs)\<lparr>i_quadrupole_dipole_idx := n\<rparr> = clear_sums (cs\<lparr>i_quadrupole_dipole_idx := n\<rparr>)"
  "(clear_sums cs)\<lparr>i_quadrupole_idx := n\<rparr> = clear_sums (cs\<lparr>i_quadrupole_idx := n\<rparr>)"
  by (simp_all add: clear_sums_def)

lemma upd_soa_fields [simp]:
  "sum_upot6lj (upd_soa p g cs) = sum_upot6lj cs"
  "sum_upotXpoles (upd_soa p g cs) = sum_upotXpoles cs"
  "sum_virial (upd_soa p g cs) = sum_virial cs"
  "sum_myRF (upd_soa p g cs) = sum_myRF cs"
  "i_ljc_idx (upd_soa p g cs) = i_ljc_idx cs"
  "i_charge_idx (upd_soa p g cs) = i_charge_idx cs"
  "i_charge_dipole_idx (upd_soa p g cs) = i_charge_dipole_idx cs"
  "i_charge_quadrupole_idx (upd_soa p g cs) = i_charge_quadrupole_idx cs"
  "i_dipole_charge_idx (upd_soa p g cs) = i_dipole_charge_idx cs"
  "i_dipole_idx (upd_soa p g cs) = i_dipole_idx cs"
  "i_dipole_quadrupole_idx (upd_soa p g cs) = i_dipole_quadrupole_idx cs"
  "i_quadrupole_charge_idx (upd_soa p g cs) = i_quadrupole_charge_idx cs"
  "i_quadrupole_dipole_idx (upd_soa p g cs) = i_quadrupole_dipole_idx cs"
  "i_quadrupole_idx (upd_soa p g cs) = i_quadrupole_idx cs"
  by (simp_all add: upd_soa_def)

lemma ljc_site_macro:
  "ljc_site pol False proc p1 p2 m1_r li (clear_sums cs)
     = clear_sums (ljc_site pol True proc p1 p2 m1_r li cs)"
  by (simp add: ljc_site_def Let_def pair_fold_macro)

lemma charge_charge_site_macro:
  "charge_charge_site pol False p1 p2 m1_r li (clear_sums cs)
     = clear_sums (charge_charge_site pol True p1 p2 m1_r li cs)"
  by (simp add: charge_charge_site_def Let_def pair_fold_macro)

lemma dipole_charge_site_macro:
  "dipole_charge_site pol False p1 p2 m1_r li (clear_sums cs)
     = clear_sums (dipole_charge_site pol True p1 p2 m1_r li cs)"
  by (simp add: dipole_charge_site_def Let_def pair_fold_macro)

lemma quadrupole_charge_site_macro:
  "quadrupole_charge_site pol False p1 p2 m1_r li (clear_sums cs)
     = clear_sums (quadrupole_charge_site pol True p1 p2 m1_r li cs)"
  by (simp add: quadrupole_charge_site_def Let_def pair_fold_macro)

lemma dipole_dipole_site_macro:
  "dipole_dipole_site pol False proc p1 p2 m1_r li (clear_sums cs)
     = clear_sums (dipole_dipole_site pol True proc p1 p2 m1_r li cs)"
  by (simp add: dipole_dipole_site_def Let_def pair_fold_macro)

lemma charge_dipole_site_macro:
  "charge_dipole_site pol False p1 p2 m1_r li (clear_sums cs)
     = clear_sums (charge_dipole_site pol True p1 p2 m1_r li cs)"
  by (simp add: charge_dipole_site_def Let_def pair_fold_macro)

lemma quadrupole_dipole_site_macro:
  "quadrupole_dipole_site pol False p1 p2 m1_r li (clear_sums cs)
     = clear_sums (quadrupole_dipole_site pol True p1 p2 m1_r li cs)"
  by (simp add: quadrupole_dipole_site_def Let_def pair_fold_macro)

lemma quadrupole_quadrupole_site_macro:
  "quadrupole_quadrupole_site pol False p1 p2 m1_r li (clear_sums cs)
     = clear_sums (quadrupole_quadrupole_site pol True p1 p2 m1_r li cs)"
  by (simp add: quadrupole_quadrupole_site_def Let_def pair_fold_macro)

lemma charge_quadrupole_site_macro:
  "charge_quadrupole_site pol False p1 p2 m1_r li (clear_sums cs)
     = clear_sums (charge_quadrupole_site pol True p1 p2 m1_r li cs)"
  by (simp add: charge_quadrupole_site_def Let_def pair_fold_macro)

lemma dipole_quadrupole_site_macro:
  "dipole_quadrupole_site pol False p1 p2 m1_r li (clear_sums cs)
     = clear_sums (dipole_quadrupole_site pol True p1 p2 m1_r li cs)"
  by (simp add: dipole_quadrupole_site_def Let_def pair_fold_macro)

lemmas site_macro =
  ljc_site_macro charge_charge_site_macro dipole_charge_site_macro quadrupole_charge_site_macro
  dipole_dipole_site_macro charge_dipole_site_macro quadrupole_dipole_site_macro
  quadrupole_quadrupole_site_macro charge_quadrupole_site_macro dipole_quadrupole_site_macro























section \<open>Dispatch of the cell-pair entry point\<close>




end
